theory Spec2Isabelle
  imports Complex_Main "HOL-Library.Sublist"
begin

section \<open>JavaScript numbers\<close>

text \<open>
  A JavaScript \<open>number\<close> is modelled as an exact real, one of the two infinities, or
  NaN.  Rounding to 64-bit binary floating point and the sign of zero are not modelled:
  arithmetic on finite values is exact, and a zero divisor is treated as \<open>+0\<close>.
  Everything else follows IEEE 754 as ECMAScript prescribes it: NaN is absorbing,
  \<open>Infinity - Infinity\<close>, \<open>0 * Infinity\<close>, \<open>0 / 0\<close> and \<open>Infinity / Infinity\<close> are NaN,
  and every comparison with NaN is false.
\<close>

datatype number = NaN | NegInfinity | Num real | Infinity

fun js_neg :: "number \<Rightarrow> number" where
  "js_neg NaN = NaN"
| "js_neg NegInfinity = Infinity"
| "js_neg Infinity = NegInfinity"
| "js_neg (Num a) = Num (- a)"

fun js_add :: "number \<Rightarrow> number \<Rightarrow> number" where
  "js_add NaN _ = NaN"
| "js_add _ NaN = NaN"
| "js_add Infinity NegInfinity = NaN"
| "js_add NegInfinity Infinity = NaN"
| "js_add Infinity _ = Infinity"
| "js_add _ Infinity = Infinity"
| "js_add NegInfinity _ = NegInfinity"
| "js_add _ NegInfinity = NegInfinity"
| "js_add (Num a) (Num b) = Num (a + b)"

definition js_sub :: "number \<Rightarrow> number \<Rightarrow> number" where
  "js_sub a b = js_add a (js_neg b)"

text \<open>The sign of a non-NaN number: \<open>-1\<close>, \<open>0\<close> or \<open>1\<close>.\<close>

fun js_sign :: "number \<Rightarrow> int" where
  "js_sign NaN = 0"
| "js_sign NegInfinity = - 1"
| "js_sign Infinity = 1"
| "js_sign (Num a) = (if a < 0 then - 1 else if a = 0 then 0 else 1)"

definition signed_infinity :: "int \<Rightarrow> number" where
  "signed_infinity s = (if s < 0 then NegInfinity else Infinity)"

fun js_mul :: "number \<Rightarrow> number \<Rightarrow> number" where
  "js_mul NaN _ = NaN"
| "js_mul _ NaN = NaN"
| "js_mul (Num a) (Num b) = Num (a * b)"
| "js_mul x y =
     (if js_sign x = 0 \<or> js_sign y = 0 then NaN else signed_infinity (js_sign x * js_sign y))"

fun js_div :: "number \<Rightarrow> number \<Rightarrow> number" where
  "js_div NaN _ = NaN"
| "js_div _ NaN = NaN"
| "js_div (Num a) (Num b) =
     (if b = 0 then (if a = 0 then NaN else signed_infinity (js_sign (Num a)))
      else Num (a / b))"
| "js_div (Num a) _ = Num 0"
| "js_div x (Num b) = signed_infinity (js_sign x * (if b < 0 then - 1 else 1))"
| "js_div _ _ = NaN"

text \<open>The relational operator \<open><\<close> and strict equality \<open>===\<close> on numbers.\<close>

fun js_lt :: "number \<Rightarrow> number \<Rightarrow> bool" where
  "js_lt NaN _ = False"
| "js_lt _ NaN = False"
| "js_lt (Num a) (Num b) = (a < b)"
| "js_lt NegInfinity NegInfinity = False"
| "js_lt NegInfinity _ = True"
| "js_lt _ NegInfinity = False"
| "js_lt Infinity _ = False"
| "js_lt _ Infinity = True"

definition js_seq :: "number \<Rightarrow> number \<Rightarrow> bool" where
  "js_seq a b = (a \<noteq> NaN \<and> a = b)"

subsection \<open>The \<open>Math\<close> functions used by the map\<close>

definition Math_PI :: number where
  "Math_PI = Num pi"

fun Math_sin :: "number \<Rightarrow> number" where
  "Math_sin (Num x) = Num (sin x)"
| "Math_sin _ = NaN"

fun Math_cos :: "number \<Rightarrow> number" where
  "Math_cos (Num x) = Num (cos x)"
| "Math_cos _ = NaN"

fun Math_sqrt :: "number \<Rightarrow> number" where
  "Math_sqrt (Num x) = (if x < 0 then NaN else Num (sqrt x))"
| "Math_sqrt Infinity = Infinity"
| "Math_sqrt _ = NaN"

text \<open>The two-argument arctangent on the reals, with the angle in \<open>(-\<pi>, \<pi>]\<close>.\<close>

definition atan2 :: "real \<Rightarrow> real \<Rightarrow> real" where
  "atan2 y x =
     (if 0 < x then arctan (y / x)
      else if x < 0 then (if 0 \<le> y then arctan (y / x) + pi else arctan (y / x) - pi)
      else if 0 < y then pi / 2
      else if y < 0 then - (pi / 2)
      else 0)"

fun Math_atan2 :: "number \<Rightarrow> number \<Rightarrow> number" where
  "Math_atan2 NaN _ = NaN"
| "Math_atan2 _ NaN = NaN"
| "Math_atan2 (Num y) (Num x) = Num (atan2 y x)"
| "Math_atan2 (Num y) Infinity = Num 0"
| "Math_atan2 (Num y) NegInfinity = Num (if 0 \<le> y then pi else - pi)"
| "Math_atan2 Infinity (Num x) = Num (pi / 2)"
| "Math_atan2 NegInfinity (Num x) = Num (- (pi / 2))"
| "Math_atan2 Infinity Infinity = Num (pi / 4)"
| "Math_atan2 Infinity NegInfinity = Num (3 * pi / 4)"
| "Math_atan2 NegInfinity Infinity = Num (- (pi / 4))"
| "Math_atan2 NegInfinity NegInfinity = Num (- (3 * pi / 4))"

section \<open>The map: transect features and the nearest-transect locator\<close>

record TransectProperties =
  transect_id :: number
  vertex_id :: number
  stream_vertex_lat :: number
  stream_vertex_lon :: number
  transect_length_m :: number
  spacing_m :: number
  num_vertices :: number

text \<open>A GeoJSON \<open>LineString\<close>: its coordinates are pairs \<open>[lon, lat]\<close>.\<close>

record LineString =
  coordinates :: "(number \<times> number) list"

record TransectFeature =
  properties :: TransectProperties
  geometry :: LineString

record TransectData =
  features :: "TransectFeature list"

text \<open>
  \<open>calculateDistance\<close>: the haversine distance in metres.  The operations are those
  of the number model above, so on finite arguments the value is the exact one; in
  double precision the same expression is rounded at every step, and where \<open>a\<close> rounds
  above 1 the result is NaN.  The properties of the locator below therefore take the
  distance of a vertex as whatever \<open>calculateDistance\<close> returns, NaN included.
\<close>

definition calculateDistance :: "number \<Rightarrow> number \<Rightarrow> number \<Rightarrow> number \<Rightarrow> number" where
  "calculateDistance lat1 lon1 lat2 lon2 =
     (let R = Num 6371000;
          phi1 = js_div (js_mul lat1 Math_PI) (Num 180);
          phi2 = js_div (js_mul lat2 Math_PI) (Num 180);
          dphi = js_div (js_mul (js_sub lat2 lat1) Math_PI) (Num 180);
          dlambda = js_div (js_mul (js_sub lon2 lon1) Math_PI) (Num 180);
          a = js_add
                (js_mul (Math_sin (js_div dphi (Num 2))) (Math_sin (js_div dphi (Num 2))))
                (js_mul
                  (js_mul (js_mul (Math_cos phi1) (Math_cos phi2)) (Math_sin (js_div dlambda (Num 2))))
                  (Math_sin (js_div dlambda (Num 2))));
          c = js_mul (Num 2) (Math_atan2 (Math_sqrt a) (Math_sqrt (js_sub (Num 1) a)))
      in js_mul R c)"

text \<open>
  The inner loop of \<open>findClosestTransect\<close>: the running minimum \<open>localMin\<close> over the
  vertices of one line, starting from the value passed in.
\<close>

fun localMinLoop :: "number \<Rightarrow> number \<Rightarrow> (number \<times> number) list \<Rightarrow> number \<Rightarrow> number" where
  "localMinLoop mouseLat mouseLng [] localMin = localMin"
| "localMinLoop mouseLat mouseLng (coord # rest) localMin =
     (case coord of (lon, lat) \<Rightarrow>
        let d = calculateDistance mouseLat mouseLng lat lon
        in localMinLoop mouseLat mouseLng rest (if js_lt d localMin then d else localMin))"

text \<open>The outer loop, over the features, with the state \<open>(closest, best)\<close>.\<close>

fun closestLoop ::
  "number \<Rightarrow> number \<Rightarrow> TransectFeature list \<Rightarrow> TransectFeature option \<times> number \<Rightarrow>
   TransectFeature option \<times> number" where
  "closestLoop mouseLat mouseLng [] st = st"
| "closestLoop mouseLat mouseLng (feature # rest) (closest, best) =
     (let localMin = localMinLoop mouseLat mouseLng (coordinates (geometry feature)) Infinity
      in closestLoop mouseLat mouseLng rest
           (if js_lt localMin best then (Some feature, localMin) else (closest, best)))"

definition findClosestTransect ::
  "TransectData option \<Rightarrow> number \<Rightarrow> number \<Rightarrow> TransectFeature option" where
  "findClosestTransect transectData mouseLat mouseLng =
     (case transectData of
        None \<Rightarrow> None
      | Some td \<Rightarrow> fst (closestLoop mouseLat mouseLng (features td) (None, Infinity)))"

text \<open>
  The distance the inner loop computes for one vertex \<open>coord = [lon, lat]\<close>:
  \<open>const [lon, lat] = coord; const d = calculateDistance(mouseLat, mouseLng, lat, lon)\<close>.
\<close>

definition vertexDistance :: "number \<Rightarrow> number \<Rightarrow> number \<times> number \<Rightarrow> number" where
  "vertexDistance mouseLat mouseLng coord =
     (case coord of (lon, lat) \<Rightarrow> calculateDistance mouseLat mouseLng lat lon)"

text \<open>
  The least distance from the mouse position to a vertex of one feature, as the inner
  loop computes it for that feature.
\<close>

definition minVertexDistance :: "number \<Rightarrow> number \<Rightarrow> TransectFeature \<Rightarrow> number" where
  "minVertexDistance mouseLat mouseLng feature =
     localMinLoop mouseLat mouseLng (coordinates (geometry feature)) Infinity"

subsection \<open>The mouse-move handler\<close>

text \<open>
  The component state the handler reads and writes.  The optional callback
  \<open>onActiveVertexChange\<close> is modelled by a flag saying whether it was passed and by
  the list of arguments it is called with (\<open>None\<close> for \<open>null\<close>).
\<close>

record MapState =
  transectData :: "TransectData option"
  hoveredTransect :: "TransectFeature option"

text \<open>
  Strict equality of two optional-chaining results \<open>x?.properties.transect_id\<close>:
  \<open>None\<close> is \<open>undefined\<close>.
\<close>

fun js_seq_opt :: "number option \<Rightarrow> number option \<Rightarrow> bool" where
  "js_seq_opt None None = True"
| "js_seq_opt (Some a) (Some b) = js_seq a b"
| "js_seq_opt _ _ = False"

definition handleMapMouseMove ::
  "bool \<Rightarrow> MapState \<Rightarrow> number \<times> number \<Rightarrow> MapState \<times> number option list" where
  "handleMapMouseMove onActiveVertexChange st latlng =
     (case latlng of (lat, lng) \<Rightarrow>
        let closest = findClosestTransect (transectData st) lat lng;
            currentHoveredId = map_option (\<lambda>f. transect_id (properties f)) (hoveredTransect st);
            newHoveredId = map_option (\<lambda>f. transect_id (properties f)) closest
        in if \<not> js_seq_opt currentHoveredId newHoveredId
           then (st\<lparr>hoveredTransect := closest\<rparr>,
                 if onActiveVertexChange
                 then [map_option (\<lambda>f. vertex_id (properties f)) closest] else [])
           else (st, []))"

text \<open>The haversine quantity \<open>a\<close> and the central angle, as the specification words them.\<close>

definition haversine_a :: "real \<Rightarrow> real \<Rightarrow> real \<Rightarrow> real \<Rightarrow> real" where
  "haversine_a lat1 lon1 lat2 lon2 =
     (let phi1 = lat1 * pi / 180;
          phi2 = lat2 * pi / 180;
          dphi = phi2 - phi1;
          dlambda = lon2 * pi / 180 - lon1 * pi / 180
      in (sin (dphi / 2))\<^sup>2 + cos phi1 * cos phi2 * (sin (dlambda / 2))\<^sup>2)"

definition central_angle :: "real \<Rightarrow> real \<Rightarrow> real \<Rightarrow> real \<Rightarrow> real" where
  "central_angle lat1 lon1 lat2 lon2 =
     (let phi1 = lat1 * pi / 180;
          phi2 = lat2 * pi / 180;
          dlambda = lon2 * pi / 180 - lon1 * pi / 180
      in arccos (sin phi1 * sin phi2 + cos phi1 * cos phi2 * cos dlambda))"

section \<open>The coordinate scalers of the two charts\<close>

record Margin =
  m_top :: number
  m_right :: number
  m_bottom :: number
  m_left :: number

subsection \<open>Longitudinal profile\<close>

definition width :: number where
  "width = Num 1000"

definition height :: number where
  "height = Num 200"

definition margin :: Margin where
  "margin = \<lparr>m_top = Num 24, m_right = Num 12, m_bottom = Num 26, m_left = Num 52\<rparr>"

definition innerW :: number where
  "innerW = js_sub (js_sub width (m_left margin)) (m_right margin)"

definition innerH :: number where
  "innerH = js_sub (js_sub height (m_top margin)) (m_bottom margin)"

definition minY :: number where
  "minY = Num (- 15)"

definition maxY :: number where
  "maxY = Num 7.5"

text \<open>
  \<open>xScale\<close> and \<open>yScale\<close> close over the domain bounds of the component; the bounds
  are parameters here.  The chart calls \<open>xScale\<close> with the bounds computed from the
  data and \<open>yScale\<close> with \<open>minY\<close> and \<open>maxY\<close>.
\<close>

definition xScale :: "number \<Rightarrow> number \<Rightarrow> number \<Rightarrow> number" where
  "xScale minX maxX x =
     (if js_seq maxX minX then js_add (m_left margin) (js_div innerW (Num 2))
      else js_add (m_left margin)
             (js_mul (js_div (js_sub x minX) (js_sub maxX minX)) innerW))"

definition yScale :: "number \<Rightarrow> number \<Rightarrow> number \<Rightarrow> number" where
  "yScale minY' maxY' y =
     (if js_seq maxY' minY' then js_add (m_top margin) (js_div innerH (Num 2))
      else js_sub (js_add (m_top margin) innerH)
             (js_mul (js_div (js_sub y minY') (js_sub maxY' minY')) innerH))"

subsection \<open>Lateral profile\<close>

definition width_Lateral :: number where
  "width_Lateral = Num 600"

definition height_Lateral :: number where
  "height_Lateral = Num 300"

definition margin_Lateral :: Margin where
  "margin_Lateral = \<lparr>m_top = Num 12, m_right = Num 12, m_bottom = Num 28, m_left = Num 52\<rparr>"

definition innerW_Lateral :: number where
  "innerW_Lateral =
     js_sub (js_sub width_Lateral (m_left margin_Lateral)) (m_right margin_Lateral)"

definition innerH_Lateral :: number where
  "innerH_Lateral =
     js_sub (js_sub height_Lateral (m_top margin_Lateral)) (m_bottom margin_Lateral)"

definition minX_Lateral :: number where
  "minX_Lateral = Num 0"

definition maxX_Lateral :: number where
  "maxX_Lateral = Num 40"

definition minY_Lateral :: number where
  "minY_Lateral = Num (- 20)"

definition maxY_Lateral :: number where
  "maxY_Lateral = Num 20"

definition xScale_Lateral :: "number \<Rightarrow> number" where
  "xScale_Lateral xMeters =
     js_add (m_left margin_Lateral)
       (js_mul (js_div (js_sub xMeters minX_Lateral) (js_sub maxX_Lateral minX_Lateral))
          innerW_Lateral)"

definition yScale_Lateral :: "number \<Rightarrow> number" where
  "yScale_Lateral y =
     js_sub (js_add (m_top margin_Lateral) innerH_Lateral)
       (js_mul (js_div (js_sub y minY_Lateral) (js_sub maxY_Lateral minY_Lateral))
          innerH_Lateral)"

text \<open>The middle of a pixel range \<open>[lo, hi]\<close>.\<close>

definition midpoint_px :: "number \<Rightarrow> number \<Rightarrow> number" where
  "midpoint_px lo hi = js_div (js_add lo hi) (Num 2)"

section \<open>The CSV loaders and the transect-elevations endpoint\<close>

subsection \<open>Strings\<close>

text \<open>
  A \<open>char\<close> stands for the code unit with its number.  The white space that
  \<open>String.prototype.trim\<close>, \<open>parseInt\<close> and \<open>parseFloat\<close> strip is, among the code
  units below 256: tab, line feed, vertical tab, form feed, carriage return, space and
  no-break space.
\<close>

definition isWhiteSpace :: "char \<Rightarrow> bool" where
  "isWhiteSpace c =
     (c \<in> set [CHR 0x09, CHR 0x0A, CHR 0x0B, CHR 0x0C, CHR 0x0D, CHR 0x20, CHR 0xA0])"

definition trimStart :: "string \<Rightarrow> string" where
  "trimStart s = dropWhile isWhiteSpace s"

definition trim :: "string \<Rightarrow> string" where
  "trim s = rev (dropWhile isWhiteSpace (rev (dropWhile isWhiteSpace s)))"

definition isDigit :: "char \<Rightarrow> bool" where
  "isDigit c = (c \<in> set ''0123456789'')"

definition digitValue :: "char \<Rightarrow> nat" where
  "digitValue c = of_char c - 48"

definition digitsValue :: "string \<Rightarrow> nat" where
  "digitsValue ds = foldl (\<lambda>acc c. 10 * acc + digitValue c) 0 ds"

definition isPrefixOf :: "string \<Rightarrow> string \<Rightarrow> bool" where
  "isPrefixOf p s = (take (length p) s = p)"

fun consFirst :: "char \<Rightarrow> string list \<Rightarrow> string list" where
  "consFirst c [] = [[c]]"
| "consFirst c (l # ls) = (c # l) # ls"

text \<open>\<open>csv.split(/\r?\n/)\<close>: a line ends at a line feed, or at a carriage return followed by one.\<close>

fun splitLines :: "string \<Rightarrow> string list" where
  "splitLines [] = [[]]"
| "splitLines [c] = (if c = CHR 0x0A then [[], []] else [[c]])"
| "splitLines (c # d # ds) =
     (if c = CHR 0x0A then [] # splitLines (d # ds)
      else if c = CHR 0x0D \<and> d = CHR 0x0A then [] # splitLines ds
      else consFirst c (splitLines (d # ds)))"

text \<open>\<open>line.split(',')\<close>.\<close>

fun splitComma :: "string \<Rightarrow> string list" where
  "splitComma [] = [[]]"
| "splitComma (c # cs) =
     (if c = CHR '','' then [] # splitComma cs else consFirst c (splitComma cs))"

subsection \<open>\<open>parseInt\<close> with radix 10 and \<open>parseFloat\<close>\<close>

text \<open>
  \<open>parseInt(s, 10)\<close>: leading white space is skipped, one sign is read, and the longest
  run of decimal digits that follows is the value; with no digit the result is NaN.
\<close>

definition parseInt :: "string \<Rightarrow> number" where
  "parseInt inputString =
     (let S = trimStart inputString;
          sign = (if S \<noteq> [] \<and> hd S = CHR ''-'' then - 1 else 1 :: real);
          S' = (if S \<noteq> [] \<and> (hd S = CHR ''+'' \<or> hd S = CHR ''-'') then tl S else S);
          Z = takeWhile isDigit S'
      in if Z = [] then NaN else Num (sign * real (digitsValue Z)))"

text \<open>
  \<open>parseFloat(s)\<close>: leading white space is skipped and the longest prefix that is a
  decimal literal is the value: an optional sign, then \<open>Infinity\<close>, or digits with an
  optional fraction and an optional exponent; with no such prefix the result is NaN.
\<close>

definition parseFloat :: "string \<Rightarrow> number" where
  "parseFloat inputString =
     (let S = trimStart inputString;
          negative = (S \<noteq> [] \<and> hd S = CHR ''-'');
          U = (if S \<noteq> [] \<and> (hd S = CHR ''+'' \<or> hd S = CHR ''-'') then tl S else S)
      in if isPrefixOf ''Infinity'' U then (if negative then NegInfinity else Infinity)
         else
           let intDigits = takeWhile isDigit U;
               afterInt = dropWhile isDigit U;
               hasPoint = (afterInt \<noteq> [] \<and> hd afterInt = CHR ''.'');
               fracDigits = (if hasPoint then takeWhile isDigit (tl afterInt) else []);
               afterFrac = (if hasPoint then dropWhile isDigit (tl afterInt) else afterInt);
               hasE = (afterFrac \<noteq> [] \<and> (hd afterFrac = CHR ''e'' \<or> hd afterFrac = CHR ''E''));
               afterE = (if hasE then tl afterFrac else []);
               expNegative = (afterE \<noteq> [] \<and> hd afterE = CHR ''-'');
               expRest = (if afterE \<noteq> [] \<and> (hd afterE = CHR ''+'' \<or> hd afterE = CHR ''-'')
                          then tl afterE else afterE);
               expDigits = takeWhile isDigit expRest;
               mantissa = real (digitsValue intDigits)
                          + real (digitsValue fracDigits) / 10 ^ length fracDigits;
               scaled = (if expNegative then mantissa / 10 ^ digitsValue expDigits
                         else mantissa * 10 ^ digitsValue expDigits)
           in if intDigits = [] \<and> fracDigits = [] then NaN
              else Num (if negative then - scaled else scaled))"

subsection \<open>Records\<close>

datatype jsval = Undefined | Str string | Number number

type_synonym jsobj = "string \<rightharpoonup> jsval"

text \<open>
  \<open>obj[key] = v\<close> on an object created by \<open>{}\<close>: the key \<open>__proto__\<close> reaches the setter
  of \<open>Object.prototype\<close>, which ignores a string, so no property is stored.
\<close>

definition setProperty :: "(string \<rightharpoonup> 'v) \<Rightarrow> string \<Rightarrow> 'v \<Rightarrow> (string \<rightharpoonup> 'v)" where
  "setProperty obj key v = (if key = ''__proto__'' then obj else obj(key \<mapsto> v))"

text \<open>
  \<open>headers.forEach((h, i) => { obj[h] = cols[i] !== undefined ? cols[i].trim() : ''; })\<close>,
  from index \<open>i\<close> on.
\<close>

fun forEachHeader ::
  "string list \<Rightarrow> nat \<Rightarrow> string list \<Rightarrow> (string \<rightharpoonup> string) \<Rightarrow> (string \<rightharpoonup> string)" where
  "forEachHeader [] i cols obj = obj"
| "forEachHeader (h # hs) i cols obj =
     forEachHeader hs (Suc i) cols
       (setProperty obj h (if i < length cols then trim (cols ! i) else []))"

text \<open>The object of one line after the \<open>forEach\<close>: every property is still a string.\<close>

definition rawRow :: "string list \<Rightarrow> string \<Rightarrow> (string \<rightharpoonup> string)" where
  "rawRow headers line = forEachHeader headers 0 (splitComma line) Map.empty"

text \<open>The string that \<open>parseInt\<close> and \<open>parseFloat\<close> see for a property: \<open>undefined\<close> when it is absent.\<close>

definition propertyText :: "string option \<Rightarrow> string" where
  "propertyText v = (case v of None \<Rightarrow> ''undefined'' | Some s \<Rightarrow> s)"

text \<open>
  One row of the transect-elevations loader.  The coerced keys are pairwise distinct,
  so each coercion reads the string the \<open>forEach\<close> stored.
\<close>

definition rowOf :: "string list \<Rightarrow> string \<Rightarrow> jsobj" where
  "rowOf headers line =
     (let raw = rawRow headers line;
          obj0 = (\<lambda>k. map_option Str (raw k));
          obj1 = obj0(''transect_id'' \<mapsto> Number (parseInt (propertyText (raw ''transect_id''))));
          obj2 = obj1(''vertex_index'' \<mapsto> Number (parseInt (propertyText (raw ''vertex_index''))));
          obj3 = obj2(''elevation'' \<mapsto> Number (parseFloat (propertyText (raw ''elevation''))))
      in if raw ''dam'' \<noteq> None
         then (let v = parseFloat (propertyText (raw ''dam''))
               in obj3(''dam'' \<mapsto> (if v = NaN then Undefined else Number v)))
         else obj3)"

definition nonBlank :: "string \<Rightarrow> bool" where
  "nonBlank l = (length (trim l) > 0)"

definition parseCsv :: "string \<Rightarrow> jsobj list" where
  "parseCsv csv =
     (let lines = filter nonBlank (splitLines csv)
      in if length lines = 0 then []
         else let headers = map trim (splitComma (hd lines))
              in map (rowOf headers) (tl lines))"

text \<open>One row of the stream-elevations loader: a field is coerced only when it is a string.\<close>

definition rowOf_stream :: "string list \<Rightarrow> string \<Rightarrow> jsobj" where
  "rowOf_stream headers line =
     (let raw = rawRow headers line;
          obj0 = (\<lambda>k. map_option Str (raw k));
          obj1 = (case raw ''vertex_id'' of
                    Some s \<Rightarrow> obj0(''vertex_id'' \<mapsto> Number (parseInt s)) | None \<Rightarrow> obj0);
          obj2 = (case raw ''elevation_normalized_m'' of
                    Some s \<Rightarrow> obj1(''elevation_normalized_m'' \<mapsto> Number (parseFloat s))
                  | None \<Rightarrow> obj1);
          obj3 = (case raw ''elevation'' of
                    Some s \<Rightarrow> obj2(''elevation'' \<mapsto> Number (parseFloat s)) | None \<Rightarrow> obj2)
      in obj3)"

definition parseCsv_stream :: "string \<Rightarrow> jsobj list" where
  "parseCsv_stream csv =
     (let lines = filter nonBlank (splitLines csv)
      in if length lines = 0 then []
         else let headers = map trim (splitComma (hd lines))
              in map (rowOf_stream headers) (tl lines))"

subsection \<open>The endpoint\<close>

text \<open>Reading a property, and strict equality \<open>===\<close> of two values.\<close>

definition getProperty :: "jsobj \<Rightarrow> string \<Rightarrow> jsval" where
  "getProperty obj key = (case obj key of None \<Rightarrow> Undefined | Some v \<Rightarrow> v)"

fun js_strict_eq :: "jsval \<Rightarrow> jsval \<Rightarrow> bool" where
  "js_strict_eq Undefined Undefined = True"
| "js_strict_eq (Str a) (Str b) = (a = b)"
| "js_strict_eq (Number a) (Number b) = js_seq a b"
| "js_strict_eq _ _ = False"

datatype response =
  DataResponse "jsobj list"
| ErrorResponse string nat

text \<open>
  \<open>GET\<close>: the first argument is the outcome of reading the file, either the error
  thrown (with its message, if it has one) or the content; the second is
  \<open>searchParams.get('transect_id')\<close>, \<open>None\<close> for \<open>null\<close>.
\<close>

definition GET :: "string option + string \<Rightarrow> string option \<Rightarrow> response" where
  "GET readFile idParam =
     (case readFile of
        Inl err \<Rightarrow>
          ErrorResponse
            (case err of
               Some message \<Rightarrow>
                 if message \<noteq> [] then message else ''Failed to read transect elevations''
             | None \<Rightarrow> ''Failed to read transect elevations'')
            500
      | Inr content \<Rightarrow>
          let data = parseCsv content;
              transectId = (case idParam of
                              Some s \<Rightarrow> if s \<noteq> [] then Some (parseInt s) else None
                            | None \<Rightarrow> None);
              filtered = (case transectId of
                            Some t \<Rightarrow>
                              filter (\<lambda>d. js_strict_eq (getProperty d ''transect_id'') (Number t)) data
                          | None \<Rightarrow> data)
          in DataResponse filtered)"

subsection \<open>The specification's words for the loader\<close>

text \<open>
  The header is the first line that is not blank; the data lines are the lines after
  it that are not blank.
\<close>

definition headerAndRest :: "string \<Rightarrow> string list" where
  "headerAndRest csv = dropWhile (\<lambda>l. \<not> nonBlank l) (splitLines csv)"

definition csvHeaders :: "string \<Rightarrow> string list" where
  "csvHeaders csv = map trim (splitComma (hd (headerAndRest csv)))"

definition dataLines :: "string \<Rightarrow> string list" where
  "dataLines csv = filter nonBlank (tl (headerAndRest csv))"

text \<open>
  Numeric text: after leading white space and one optional sign, the text starts with
  a digit (for an integer field), or with a digit, a point followed by a digit, or
  \<open>Infinity\<close> (for a decimal field).
\<close>

definition unsignedPart :: "string \<Rightarrow> string" where
  "unsignedPart s =
     (let S = trimStart s
      in if S \<noteq> [] \<and> (hd S = CHR ''+'' \<or> hd S = CHR ''-'') then tl S else S)"

definition integerText :: "string \<Rightarrow> bool" where
  "integerText s = (unsignedPart s \<noteq> [] \<and> isDigit (hd (unsignedPart s)))"

definition decimalText :: "string \<Rightarrow> bool" where
  "decimalText s =
     (let U = unsignedPart s
      in isPrefixOf ''Infinity'' U
         \<or> (U \<noteq> [] \<and> isDigit (hd U))
         \<or> (2 \<le> length U \<and> hd U = CHR ''.'' \<and> isDigit (U ! 1)))"

text \<open>Sample features for evaluating the locator on concrete data.\<close>

definition sampleFeature :: "real \<Rightarrow> (number \<times> number) list \<Rightarrow> TransectFeature" where
  "sampleFeature n cs =
     \<lparr>properties =
        \<lparr>transect_id = Num n, vertex_id = Num n, stream_vertex_lat = Num 0,
         stream_vertex_lon = Num 0, transect_length_m = Num 40, spacing_m = Num 2,
         num_vertices = Num (real (length cs))\<rparr>,
      geometry = \<lparr>coordinates = cs\<rparr>\<rparr>"

definition sampleData :: "TransectFeature list \<Rightarrow> TransectData" where
  "sampleData fs = \<lparr>features = fs\<rparr>"


section \<open>Properties of the locator\<close>

lemma js_lt_irrefl: "\<not> js_lt a a"
  by (cases a) auto

lemma js_lt_trans: "js_lt a b \<Longrightarrow> js_lt b c \<Longrightarrow> js_lt a c"
  by (cases a; cases b; cases c) auto

lemma js_lt_not_NaN: "js_lt a b \<Longrightarrow> a \<noteq> NaN \<and> b \<noteq> NaN"
  by (cases a; cases b) auto

lemma js_lt_le_trans: "js_lt a b \<Longrightarrow> \<not> js_lt c b \<Longrightarrow> c \<noteq> NaN \<Longrightarrow> js_lt a c"
  by (cases a; cases b; cases c) auto

lemma js_le_lt_trans: "\<not> js_lt b a \<Longrightarrow> js_lt b c \<Longrightarrow> a \<noteq> NaN \<Longrightarrow> js_lt a c"
  by (cases a; cases b; cases c) auto

lemma js_not_lt_Infinity: "a \<noteq> NaN \<Longrightarrow> \<not> js_lt a Infinity \<Longrightarrow> a = Infinity"
  by (cases a) auto

lemma localMinLoop_not_NaN:
  "m \<noteq> NaN \<Longrightarrow> localMinLoop mlat mlng cs m \<noteq> NaN"
proof (induction cs arbitrary: m)
  case Nil
  then show ?case by simp
next
  case (Cons c cs)
  obtain lon lat where c: "c = (lon, lat)" by (cases c)
  show ?case
    using Cons.IH Cons.prems js_lt_not_NaN by (auto simp: c Let_def)
qed

lemma localMinLoop_le_init:
  "m \<noteq> NaN \<Longrightarrow> \<not> js_lt m (localMinLoop mlat mlng cs m)"
proof (induction cs arbitrary: m)
  case Nil
  then show ?case by (simp add: js_lt_irrefl)
next
  case (Cons c cs)
  obtain lon lat where c: "c = (lon, lat)" by (cases c)
  let ?d = "calculateDistance mlat mlng lat lon"
  show ?case
  proof (cases "js_lt ?d m")
    case True
    then have dn: "?d \<noteq> NaN" using js_lt_not_NaN by blast
    have "\<not> js_lt ?d (localMinLoop mlat mlng cs ?d)" using Cons.IH dn by blast
    then have "\<not> js_lt m (localMinLoop mlat mlng cs ?d)"
      using True js_lt_trans by blast
    then show ?thesis using True by (simp add: c)
  next
    case False
    then show ?thesis using Cons.IH Cons.prems by (simp add: c)
  qed
qed

lemma localMinLoop_lower_bound:
  "m \<noteq> NaN \<Longrightarrow> (lon, lat) \<in> set cs \<Longrightarrow>
   \<not> js_lt (calculateDistance mlat mlng lat lon) (localMinLoop mlat mlng cs m)"
proof (induction cs arbitrary: m)
  case Nil
  then show ?case by simp
next
  case (Cons c cs)
  obtain lon' lat' where c: "c = (lon', lat')" by (cases c)
  let ?d = "calculateDistance mlat mlng lat' lon'"
  let ?m' = "if js_lt ?d m then ?d else m"
  have m': "?m' \<noteq> NaN" using Cons.prems(1) js_lt_not_NaN by auto
  have step: "localMinLoop mlat mlng (c # cs) m = localMinLoop mlat mlng cs ?m'"
    by (simp add: c)
  show ?case
  proof (cases "(lon, lat) \<in> set cs")
    case True
    then show ?thesis using Cons.IH [OF m' True] step by simp
  next
    case False
    then have eq: "lon' = lon" "lat' = lat" using Cons.prems(2) c by auto
    have le: "\<not> js_lt ?m' (localMinLoop mlat mlng cs ?m')"
      using localMinLoop_le_init [OF m'] .
    have res: "localMinLoop mlat mlng cs ?m' \<noteq> NaN"
      using localMinLoop_not_NaN [OF m'] .
    have "\<not> js_lt ?d (localMinLoop mlat mlng cs ?m')"
    proof
      assume lt: "js_lt ?d (localMinLoop mlat mlng cs ?m')"
      show False
      proof (cases "js_lt ?d m")
        case True
        then show ?thesis using lt le by simp
      next
        case False
        have "js_lt ?d m"
          using js_lt_le_trans [OF lt _ Cons.prems(1)] le False by simp
        then show ?thesis using False by simp
      qed
    qed
    then show ?thesis using step eq by simp
  qed
qed

lemma localMinLoop_attained:
  "localMinLoop mlat mlng cs m = m \<or>
   (\<exists>(lon, lat) \<in> set cs. localMinLoop mlat mlng cs m = calculateDistance mlat mlng lat lon)"
proof (induction cs arbitrary: m)
  case Nil
  then show ?case by simp
next
  case (Cons c cs)
  obtain lon' lat' where c: "c = (lon', lat')" by (cases c)
  let ?d = "calculateDistance mlat mlng lat' lon'"
  let ?m' = "if js_lt ?d m then ?d else m"
  have step: "localMinLoop mlat mlng (c # cs) m = localMinLoop mlat mlng cs ?m'"
    by (simp add: c)
  from Cons.IH [of ?m'] show ?case
    unfolding step by (auto simp: c split: if_splits)
qed

lemma closestLoop_spec:
  assumes "b \<noteq> NaN"
  shows "(closestLoop mlat mlng fs (c, b) = (c, b) \<and>
            (\<forall>f \<in> set fs. \<not> js_lt (minVertexDistance mlat mlng f) b)) \<or>
         (\<exists>i < length fs.
            closestLoop mlat mlng fs (c, b) = (Some (fs ! i), minVertexDistance mlat mlng (fs ! i)) \<and>
            js_lt (minVertexDistance mlat mlng (fs ! i)) b \<and>
            (\<forall>j < i. js_lt (minVertexDistance mlat mlng (fs ! i)) (minVertexDistance mlat mlng (fs ! j))) \<and>
            (\<forall>j < length fs.
               \<not> js_lt (minVertexDistance mlat mlng (fs ! j)) (minVertexDistance mlat mlng (fs ! i))))"
  using assms
proof (induction fs arbitrary: c b)
  case Nil
  then show ?case by simp
next
  case (Cons f fs)
  let ?mvd = "minVertexDistance mlat mlng"
  have fn: "?mvd f \<noteq> NaN"
    by (simp add: minVertexDistance_def localMinLoop_not_NaN)
  show ?case
  proof (cases "js_lt (?mvd f) b")
    case True
    have step: "closestLoop mlat mlng (f # fs) (c, b) = closestLoop mlat mlng fs (Some f, ?mvd f)"
      using True by (simp add: minVertexDistance_def)
    from Cons.IH [OF fn, of "Some f"] show ?thesis
    proof (elim disjE conjE exE)
      assume same: "closestLoop mlat mlng fs (Some f, ?mvd f) = (Some f, ?mvd f)"
        and none: "\<forall>g \<in> set fs. \<not> js_lt (?mvd g) (?mvd f)"
      have "\<forall>j < length (f # fs). \<not> js_lt (?mvd ((f # fs) ! j)) (?mvd f)"
        using none js_lt_irrefl by (auto simp: nth_Cons split: nat.splits)
      then have "0 < length (f # fs) \<and>
          closestLoop mlat mlng (f # fs) (c, b) = (Some ((f # fs) ! 0), ?mvd ((f # fs) ! 0)) \<and>
          js_lt (?mvd ((f # fs) ! 0)) b \<and>
          (\<forall>j < 0. js_lt (?mvd ((f # fs) ! 0)) (?mvd ((f # fs) ! j))) \<and>
          (\<forall>j < length (f # fs). \<not> js_lt (?mvd ((f # fs) ! j)) (?mvd ((f # fs) ! 0)))"
        using step same True by simp
      then show ?thesis by blast
    next
      fix i
      assume i: "i < length fs"
        and res: "closestLoop mlat mlng fs (Some f, ?mvd f) = (Some (fs ! i), ?mvd (fs ! i))"
        and lt: "js_lt (?mvd (fs ! i)) (?mvd f)"
        and before: "\<forall>j < i. js_lt (?mvd (fs ! i)) (?mvd (fs ! j))"
        and least: "\<forall>j < length fs. \<not> js_lt (?mvd (fs ! j)) (?mvd (fs ! i))"
      have a: "js_lt (?mvd (fs ! i)) b" using lt True js_lt_trans by blast
      have b': "\<forall>j < Suc i. js_lt (?mvd ((f # fs) ! Suc i)) (?mvd ((f # fs) ! j))"
        using before lt by (auto simp: nth_Cons split: nat.splits)
      have nf: "\<not> js_lt (?mvd f) (?mvd (fs ! i))"
        using lt js_lt_trans js_lt_irrefl by blast
      have c': "\<forall>j < length (f # fs). \<not> js_lt (?mvd ((f # fs) ! j)) (?mvd ((f # fs) ! Suc i))"
        using least nf by (auto simp: nth_Cons split: nat.splits)
      have "Suc i < length (f # fs) \<and>
          closestLoop mlat mlng (f # fs) (c, b) = (Some ((f # fs) ! Suc i), ?mvd ((f # fs) ! Suc i)) \<and>
          js_lt (?mvd ((f # fs) ! Suc i)) b \<and>
          (\<forall>j < Suc i. js_lt (?mvd ((f # fs) ! Suc i)) (?mvd ((f # fs) ! j))) \<and>
          (\<forall>j < length (f # fs). \<not> js_lt (?mvd ((f # fs) ! j)) (?mvd ((f # fs) ! Suc i)))"
        using i step res a b' c' by simp
      then show ?thesis by blast
    qed
  next
    case False
    have step: "closestLoop mlat mlng (f # fs) (c, b) = closestLoop mlat mlng fs (c, b)"
      using False by (simp add: minVertexDistance_def)
    from Cons.IH [OF Cons.prems, of c] show ?thesis
    proof (elim disjE conjE exE)
      assume same: "closestLoop mlat mlng fs (c, b) = (c, b)"
        and none: "\<forall>g \<in> set fs. \<not> js_lt (?mvd g) b"
      then show ?thesis using step False by simp
    next
      fix i
      assume i: "i < length fs"
        and res: "closestLoop mlat mlng fs (c, b) = (Some (fs ! i), ?mvd (fs ! i))"
        and lt: "js_lt (?mvd (fs ! i)) b"
        and before: "\<forall>j < i. js_lt (?mvd (fs ! i)) (?mvd (fs ! j))"
        and least: "\<forall>j < length fs. \<not> js_lt (?mvd (fs ! j)) (?mvd (fs ! i))"
      have lf: "js_lt (?mvd (fs ! i)) (?mvd f)"
        using js_lt_le_trans [OF lt False fn] .
      have b': "\<forall>j < Suc i. js_lt (?mvd ((f # fs) ! Suc i)) (?mvd ((f # fs) ! j))"
        using before lf by (auto simp: nth_Cons split: nat.splits)
      have nf: "\<not> js_lt (?mvd f) (?mvd (fs ! i))"
        using lf js_lt_trans js_lt_irrefl by blast
      have c': "\<forall>j < length (f # fs). \<not> js_lt (?mvd ((f # fs) ! j)) (?mvd ((f # fs) ! Suc i))"
        using least nf by (auto simp: nth_Cons split: nat.splits)
      have "Suc i < length (f # fs) \<and>
          closestLoop mlat mlng (f # fs) (c, b) = (Some ((f # fs) ! Suc i), ?mvd ((f # fs) ! Suc i)) \<and>
          js_lt (?mvd ((f # fs) ! Suc i)) b \<and>
          (\<forall>j < Suc i. js_lt (?mvd ((f # fs) ! Suc i)) (?mvd ((f # fs) ! j))) \<and>
          (\<forall>j < length (f # fs). \<not> js_lt (?mvd ((f # fs) ! j)) (?mvd ((f # fs) ! Suc i)))"
        using i step res lt b' c' by simp
      then show ?thesis by blast
    qed
  qed
qed

lemma js_not_lt_trans: "\<not> js_lt a b \<Longrightarrow> \<not> js_lt b c \<Longrightarrow> b \<noteq> NaN \<Longrightarrow> \<not> js_lt a c"
  by (cases a; cases b; cases c) auto

lemma minVertexDistance_not_NaN: "minVertexDistance mlat mlng f \<noteq> NaN"
  by (simp add: minVertexDistance_def localMinLoop_not_NaN)

lemma minVertexDistance_lower_bound:
  "(lon, lat) \<in> set (coordinates (geometry f)) \<Longrightarrow>
   \<not> js_lt (calculateDistance mlat mlng lat lon) (minVertexDistance mlat mlng f)"
  by (simp add: minVertexDistance_def localMinLoop_lower_bound)

lemma minVertexDistance_attained:
  "minVertexDistance mlat mlng f = Infinity \<or>
   (\<exists>(lon, lat) \<in> set (coordinates (geometry f)).
      minVertexDistance mlat mlng f = calculateDistance mlat mlng lat lon)"
  unfolding minVertexDistance_def by (rule localMinLoop_attained)

lemma minVertexDistance_no_vertices:
  "coordinates (geometry f) = [] \<Longrightarrow> minVertexDistance mlat mlng f = Infinity"
  by (simp add: minVertexDistance_def)

lemma findClosestTransect_cases:
  "(findClosestTransect (Some td) mlat mlng = None \<and>
      (\<forall>f \<in> set (features td). minVertexDistance mlat mlng f = Infinity)) \<or>
   (\<exists>i < length (features td).
      findClosestTransect (Some td) mlat mlng = Some (features td ! i) \<and>
      js_lt (minVertexDistance mlat mlng (features td ! i)) Infinity \<and>
      (\<forall>j < i. js_lt (minVertexDistance mlat mlng (features td ! i))
                      (minVertexDistance mlat mlng (features td ! j))) \<and>
      (\<forall>j < length (features td).
         \<not> js_lt (minVertexDistance mlat mlng (features td ! j))
                 (minVertexDistance mlat mlng (features td ! i))))"
proof -
  have inf: "Infinity \<noteq> NaN" by simp
  from closestLoop_spec [OF inf, of mlat mlng "features td" None] show ?thesis
  proof (elim disjE conjE exE)
    assume same: "closestLoop mlat mlng (features td) (None, Infinity) = (None, Infinity)"
      and none: "\<forall>f \<in> set (features td). \<not> js_lt (minVertexDistance mlat mlng f) Infinity"
    have "\<forall>f \<in> set (features td). minVertexDistance mlat mlng f = Infinity"
      using none js_not_lt_Infinity minVertexDistance_not_NaN by blast
    then show ?thesis using same by (simp add: findClosestTransect_def)
  next
    fix i
    assume "i < length (features td)"
      and "closestLoop mlat mlng (features td) (None, Infinity) =
             (Some (features td ! i), minVertexDistance mlat mlng (features td ! i))"
      and "js_lt (minVertexDistance mlat mlng (features td ! i)) Infinity"
      and "\<forall>j < i. js_lt (minVertexDistance mlat mlng (features td ! i))
                          (minVertexDistance mlat mlng (features td ! j))"
      and "\<forall>j < length (features td).
             \<not> js_lt (minVertexDistance mlat mlng (features td ! j))
                     (minVertexDistance mlat mlng (features td ! i))"
    then have "i < length (features td) \<and>
      findClosestTransect (Some td) mlat mlng = Some (features td ! i) \<and>
      js_lt (minVertexDistance mlat mlng (features td ! i)) Infinity \<and>
      (\<forall>j < i. js_lt (minVertexDistance mlat mlng (features td ! i))
                      (minVertexDistance mlat mlng (features td ! j))) \<and>
      (\<forall>j < length (features td).
         \<not> js_lt (minVertexDistance mlat mlng (features td ! j))
                 (minVertexDistance mlat mlng (features td ! i)))"
      by (simp add: findClosestTransect_def)
    then show ?thesis by blast
  qed
qed

lemma atan2_sqrt_nonneg:
  "Math_atan2 (Math_sqrt A) (Math_sqrt (js_sub (Num 1) A)) = NaN \<or>
   (\<exists>r. 0 \<le> r \<and> Math_atan2 (Math_sqrt A) (Math_sqrt (js_sub (Num 1) A)) = Num r)"
proof (cases A)
  case (Num a)
  show ?thesis
  proof (cases "a < 0 \<or> 1 < a")
    case True
    then show ?thesis using Num by (auto simp: js_sub_def)
  next
    case False
    then have a: "0 \<le> a" "a \<le> 1" by auto
    have "0 \<le> atan2 (sqrt a) (sqrt (1 - a))"
      using a by (auto simp: atan2_def zero_le_arctan_iff)
    then show ?thesis using Num a by (simp add: js_sub_def)
  qed
qed (simp_all add: js_sub_def)

lemma calculateDistance_nonneg: "\<not> js_lt (calculateDistance lat1 lon1 lat2 lon2) (Num 0)"
proof -
  obtain A where cd: "calculateDistance lat1 lon1 lat2 lon2 =
      js_mul (Num 6371000) (js_mul (Num 2) (Math_atan2 (Math_sqrt A) (Math_sqrt (js_sub (Num 1) A))))"
    by (simp add: calculateDistance_def Let_def)
  from atan2_sqrt_nonneg [of A] show ?thesis
    unfolding cd by auto
qed

lemma calculateDistance_self: "calculateDistance (Num y) (Num x) (Num y) (Num x) = Num 0"
  by (simp add: calculateDistance_def Let_def js_sub_def Math_PI_def atan2_def)

lemma minVertexDistance_nonneg: "\<not> js_lt (minVertexDistance mlat mlng f) (Num 0)"
proof -
  from minVertexDistance_attained [of mlat mlng f] show ?thesis
    using calculateDistance_nonneg by auto
qed

lemma minVertexDistance_at_vertex:
  assumes "(Num x, Num y) \<in> set (coordinates (geometry f))"
  shows "minVertexDistance (Num y) (Num x) f = Num 0"
proof -
  have le: "\<not> js_lt (Num 0) (minVertexDistance (Num y) (Num x) f)"
    using minVertexDistance_lower_bound [OF assms, of "Num y" "Num x"]
    by (simp add: calculateDistance_self)
  have ge: "\<not> js_lt (minVertexDistance (Num y) (Num x) f) (Num 0)"
    by (rule minVertexDistance_nonneg)
  have nn: "minVertexDistance (Num y) (Num x) f \<noteq> NaN"
    by (rule minVertexDistance_not_NaN)
  show ?thesis
    using le ge nn by (cases "minVertexDistance (Num y) (Num x) f") auto
qed

lemma calculateDistance_sample_far:
  "calculateDistance (Num 0) (Num 0) (Num 0) (Num 180) = Num (6371000 * pi)"
  by (simp add: calculateDistance_def Let_def js_sub_def Math_PI_def atan2_def)

lemma calculateDistance_sample_near:
  "calculateDistance (Num 0) (Num 0) (Num 0) (Num 0) = Num 0"
  by (rule calculateDistance_self)

lemma sample_far_distance:
  "minVertexDistance (Num 0) (Num 0) (sampleFeature 1 [(Num 180, Num 0)]) = Num (6371000 * pi)"
  by (simp add: minVertexDistance_def sampleFeature_def calculateDistance_sample_far)

lemma sample_near_distance:
  "minVertexDistance (Num 0) (Num 0) (sampleFeature n [(Num 0, Num 0)]) = Num 0"
  by (simp add: minVertexDistance_def sampleFeature_def calculateDistance_sample_near)

lemma sample_locate_second:
  "findClosestTransect
     (Some (sampleData [sampleFeature 1 [(Num 180, Num 0)], sampleFeature 2 [(Num 0, Num 0)]]))
     (Num 0) (Num 0) = Some (sampleFeature 2 [(Num 0, Num 0)])"
  using sample_far_distance sample_near_distance [of 2]
  by (simp add: findClosestTransect_def sampleData_def minVertexDistance_def Let_def)

lemma sample_locate_first_of_equal:
  "findClosestTransect
     (Some (sampleData [sampleFeature 1 [(Num 0, Num 0)], sampleFeature 2 [(Num 0, Num 0)]]))
     (Num 0) (Num 0) = Some (sampleFeature 1 [(Num 0, Num 0)])"
  using sample_near_distance [of 1] sample_near_distance [of 2]
  by (simp add: findClosestTransect_def sampleData_def minVertexDistance_def Let_def)

lemma vertexDistance_below_Infinity_iff:
  "js_lt (minVertexDistance mlat mlng f) Infinity \<longleftrightarrow>
   (\<exists>v \<in> set (coordinates (geometry f)). js_lt (vertexDistance mlat mlng v) Infinity)"
proof
  assume a: "js_lt (minVertexDistance mlat mlng f) Infinity"
  then have "minVertexDistance mlat mlng f \<noteq> Infinity"
    using js_lt_irrefl by force
  with minVertexDistance_attained [of mlat mlng f] a
  show "\<exists>v \<in> set (coordinates (geometry f)). js_lt (vertexDistance mlat mlng v) Infinity"
    by (force simp: vertexDistance_def)
next
  assume "\<exists>v \<in> set (coordinates (geometry f)). js_lt (vertexDistance mlat mlng v) Infinity"
  then obtain lon lat where v: "(lon, lat) \<in> set (coordinates (geometry f))"
    and lt: "js_lt (calculateDistance mlat mlng lat lon) Infinity"
    by (auto simp: vertexDistance_def)
  have le: "\<not> js_lt (calculateDistance mlat mlng lat lon) (minVertexDistance mlat mlng f)"
    using minVertexDistance_lower_bound [OF v] .
  show "js_lt (minVertexDistance mlat mlng f) Infinity"
    using js_le_lt_trans [OF le lt minVertexDistance_not_NaN] .
qed

text \<open>
  C1, as stated, fails: a collection is loaded and holds a transect, yet the locator
  returns none, because the transect has no vertex whose distance compares below
  \<open>Infinity\<close>.
\<close>

theorem findClosestTransect_loaded_counterexample:
  "features (sampleData [sampleFeature 1 []]) = [sampleFeature 1 []] \<and>
   findClosestTransect (Some (sampleData [sampleFeature 1 []])) (Num 20.94) (Num 71.19) = None"
  by (simp add: findClosestTransect_def sampleData_def sampleFeature_def Let_def)

text \<open>
  C1, amended.  With no transect data loaded the locator returns none.  With data
  loaded, it returns none exactly when no vertex of any transect has a computed
  distance below \<open>Infinity\<close> (no vertex at all, or every distance NaN).  Otherwise it
  returns a transect of the collection that has a vertex \<open>v\<close> such that: the distance of
  \<open>v\<close> is below \<open>Infinity\<close>; no vertex of any transect of the collection is strictly
  closer to the input point than \<open>v\<close>; and every vertex of every transect earlier in
  iteration order is strictly farther than \<open>v\<close> or has distance NaN, so among transects
  attaining exactly the same least distance the first one is returned.
\<close>

theorem findClosestTransect_least_vertex_distance:
  "findClosestTransect None mouseLat mouseLng = None \<and>
   ((\<exists>f \<in> set (features td). \<exists>v \<in> set (coordinates (geometry f)).
        js_lt (vertexDistance mouseLat mouseLng v) Infinity) \<longrightarrow>
    (\<exists>i < length (features td). \<exists>v \<in> set (coordinates (geometry (features td ! i))).
       findClosestTransect (Some td) mouseLat mouseLng = Some (features td ! i) \<and>
       js_lt (vertexDistance mouseLat mouseLng v) Infinity \<and>
       (\<forall>g \<in> set (features td). \<forall>w \<in> set (coordinates (geometry g)).
          \<not> js_lt (vertexDistance mouseLat mouseLng w) (vertexDistance mouseLat mouseLng v)) \<and>
       (\<forall>j < i. \<forall>w \<in> set (coordinates (geometry (features td ! j))).
          vertexDistance mouseLat mouseLng w = NaN \<or>
          js_lt (vertexDistance mouseLat mouseLng v) (vertexDistance mouseLat mouseLng w)))) \<and>
   (\<not> (\<exists>f \<in> set (features td). \<exists>v \<in> set (coordinates (geometry f)).
          js_lt (vertexDistance mouseLat mouseLng v) Infinity) \<longrightarrow>
    findClosestTransect (Some td) mouseLat mouseLng = None)"
proof (intro conjI impI)
  show "findClosestTransect None mouseLat mouseLng = None"
    by (simp add: findClosestTransect_def)
next
  let ?mvd = "minVertexDistance mouseLat mouseLng"
  let ?vd = "vertexDistance mouseLat mouseLng"
  let ?fs = "features td"
  assume "\<exists>f \<in> set ?fs. \<exists>v \<in> set (coordinates (geometry f)). js_lt (?vd v) Infinity"
  then have "\<exists>f \<in> set ?fs. js_lt (?mvd f) Infinity"
    using vertexDistance_below_Infinity_iff by blast
  then have notall: "\<not> (\<forall>f \<in> set ?fs. ?mvd f = Infinity)"
    using js_lt_irrefl by force
  from findClosestTransect_cases [of td mouseLat mouseLng] notall
  obtain i where i: "i < length ?fs"
    and res: "findClosestTransect (Some td) mouseLat mouseLng = Some (?fs ! i)"
    and fin: "js_lt (?mvd (?fs ! i)) Infinity"
    and before: "\<forall>j < i. js_lt (?mvd (?fs ! i)) (?mvd (?fs ! j))"
    and least: "\<forall>j < length ?fs. \<not> js_lt (?mvd (?fs ! j)) (?mvd (?fs ! i))"
    by blast
  have ninf: "?mvd (?fs ! i) \<noteq> Infinity"
    using fin js_lt_irrefl by force
  from minVertexDistance_attained [of mouseLat mouseLng "?fs ! i"] ninf
  obtain v where v: "v \<in> set (coordinates (geometry (?fs ! i)))"
    and att: "?mvd (?fs ! i) = ?vd v"
    by (force simp: vertexDistance_def)
  have lower: "\<not> js_lt (?vd w) (?mvd g)" if "w \<in> set (coordinates (geometry g))" for w g
    using that minVertexDistance_lower_bound [of "fst w" "snd w" g mouseLat mouseLng]
    by (simp add: vertexDistance_def case_prod_beta)
  have glob: "\<not> js_lt (?vd w) (?vd v)"
    if g: "g \<in> set ?fs" and w: "w \<in> set (coordinates (geometry g))" for g w
  proof -
    have b: "\<not> js_lt (?mvd g) (?mvd (?fs ! i))"
      using least g by (auto simp: in_set_conv_nth)
    show ?thesis
      using js_not_lt_trans [OF lower [OF w] b minVertexDistance_not_NaN] att by simp
  qed
  have tie: "?vd w = NaN \<or> js_lt (?vd v) (?vd w)"
    if j: "j < i" and w: "w \<in> set (coordinates (geometry (?fs ! j)))" for j w
  proof (cases "?vd w = NaN")
    case True
    then show ?thesis by simp
  next
    case False
    have "js_lt (?mvd (?fs ! i)) (?mvd (?fs ! j))" using before j by blast
    then have "js_lt (?mvd (?fs ! i)) (?vd w)"
      using js_lt_le_trans [OF _ lower [OF w] False] by blast
    then show ?thesis using att by simp
  qed
  have "js_lt (?vd v) Infinity" using fin att by simp
  then show "\<exists>i < length ?fs. \<exists>v \<in> set (coordinates (geometry (?fs ! i))).
       findClosestTransect (Some td) mouseLat mouseLng = Some (?fs ! i) \<and>
       js_lt (?vd v) Infinity \<and>
       (\<forall>g \<in> set ?fs. \<forall>w \<in> set (coordinates (geometry g)). \<not> js_lt (?vd w) (?vd v)) \<and>
       (\<forall>j < i. \<forall>w \<in> set (coordinates (geometry (?fs ! j))).
          ?vd w = NaN \<or> js_lt (?vd v) (?vd w))"
    using i v res glob tie by blast
next
  let ?mvd = "minVertexDistance mouseLat mouseLng"
  let ?fs = "features td"
  assume none: "\<not> (\<exists>f \<in> set ?fs. \<exists>v \<in> set (coordinates (geometry f)).
      js_lt (vertexDistance mouseLat mouseLng v) Infinity)"
  then have nolt: "\<forall>f \<in> set ?fs. \<not> js_lt (?mvd f) Infinity"
    using vertexDistance_below_Infinity_iff by blast
  from findClosestTransect_cases [of td mouseLat mouseLng]
  show "findClosestTransect (Some td) mouseLat mouseLng = None"
  proof (elim disjE conjE exE)
    fix i
    assume "i < length ?fs" and "js_lt (?mvd (?fs ! i)) Infinity"
    then show ?thesis using nolt by (metis nth_mem)
  qed simp
qed

theorem findClosestTransect_least_vertex_distance_witness:
  "js_lt (vertexDistance (Num 0) (Num 0) (Num 0, Num 0)) Infinity \<and>
   js_lt (Num 0) (vertexDistance (Num 0) (Num 0) (Num 180, Num 0)) \<and>
   findClosestTransect
     (Some (sampleData [sampleFeature 1 [(Num 180, Num 0)], sampleFeature 2 [(Num 0, Num 0)]]))
     (Num 0) (Num 0) = Some (sampleFeature 2 [(Num 0, Num 0)]) \<and>
   (\<exists>i < length (features (sampleData [sampleFeature 1 [(Num 180, Num 0)],
                                        sampleFeature 2 [(Num 0, Num 0)]])).
    \<exists>v \<in> set (coordinates (geometry
             (features (sampleData [sampleFeature 1 [(Num 180, Num 0)],
                                    sampleFeature 2 [(Num 0, Num 0)]]) ! i))).
      findClosestTransect
        (Some (sampleData [sampleFeature 1 [(Num 180, Num 0)], sampleFeature 2 [(Num 0, Num 0)]]))
        (Num 0) (Num 0)
      = Some (features (sampleData [sampleFeature 1 [(Num 180, Num 0)],
                                    sampleFeature 2 [(Num 0, Num 0)]]) ! i) \<and>
      js_lt (vertexDistance (Num 0) (Num 0) v) Infinity)"
proof -
  let ?td = "sampleData [sampleFeature 1 [(Num 180, Num 0)], sampleFeature 2 [(Num 0, Num 0)]]"
  have near: "js_lt (vertexDistance (Num 0) (Num 0) (Num 0, Num 0)) Infinity"
    by (simp add: vertexDistance_def calculateDistance_sample_near)
  have far: "js_lt (Num 0) (vertexDistance (Num 0) (Num 0) (Num 180, Num 0))"
    by (simp add: vertexDistance_def calculateDistance_sample_far)
  have h: "\<exists>f \<in> set (features ?td). \<exists>v \<in> set (coordinates (geometry f)).
      js_lt (vertexDistance (Num 0) (Num 0) v) Infinity"
    using near by (simp add: sampleData_def sampleFeature_def)
  have ex: "\<exists>i < length (features ?td). \<exists>v \<in> set (coordinates (geometry (features ?td ! i))).
      findClosestTransect (Some ?td) (Num 0) (Num 0) = Some (features ?td ! i) \<and>
      js_lt (vertexDistance (Num 0) (Num 0) v) Infinity"
    using findClosestTransect_least_vertex_distance [of "Num 0" "Num 0" ?td] h by blast
  show ?thesis
    using near far sample_locate_second ex by blast
qed

text \<open>
  C10.  When the loaded collection has no features, or every feature has an empty
  coordinate list, the locator returns none for every input point.
\<close>

theorem findClosestTransect_none_without_vertices:
  assumes "features td = [] \<or> (\<forall>f \<in> set (features td). coordinates (geometry f) = [])"
  shows "findClosestTransect (Some td) mouseLat mouseLng = None"
proof -
  have all: "\<forall>f \<in> set (features td). minVertexDistance mouseLat mouseLng f = Infinity"
    using assms minVertexDistance_no_vertices by auto
  from findClosestTransect_cases [of td mouseLat mouseLng] show ?thesis
  proof (elim disjE conjE exE)
    fix i
    assume "i < length (features td)"
      and "js_lt (minVertexDistance mouseLat mouseLng (features td ! i)) Infinity"
    then show ?thesis using all js_lt_irrefl by (metis nth_mem)
  qed simp
qed

theorem findClosestTransect_none_without_vertices_witness:
  "(features (sampleData [sampleFeature 1 []]) = [] \<or>
    (\<forall>f \<in> set (features (sampleData [sampleFeature 1 []])). coordinates (geometry f) = [])) \<and>
   findClosestTransect (Some (sampleData [sampleFeature 1 []])) (Num 20.94) (Num 71.19) = None"
proof -
  have h: "features (sampleData [sampleFeature 1 []]) = [] \<or>
    (\<forall>f \<in> set (features (sampleData [sampleFeature 1 []])). coordinates (geometry f) = [])"
    by (simp add: sampleData_def sampleFeature_def)
  show ?thesis
    using h findClosestTransect_none_without_vertices [OF h, of "Num 20.94" "Num 71.19"]
    by blast
qed

text \<open>
  C4, as stated, fails: of two transects that share a vertex, the locator called with
  that vertex returns the first, also when the vertex was taken from the second.
\<close>

theorem findClosestTransect_vertex_counterexample:
  "sampleFeature 2 [(Num 0, Num 0)]
     \<in> set (features (sampleData [sampleFeature 1 [(Num 0, Num 0)],
                                   sampleFeature 2 [(Num 0, Num 0)]])) \<and>
   (Num 0, Num 0) \<in> set (coordinates (geometry (sampleFeature 2 [(Num 0, Num 0)]))) \<and>
   findClosestTransect
     (Some (sampleData [sampleFeature 1 [(Num 0, Num 0)], sampleFeature 2 [(Num 0, Num 0)]]))
     (Num 0) (Num 0) \<noteq> Some (sampleFeature 2 [(Num 0, Num 0)])"
proof -
  have "sampleFeature 1 [(Num 0, Num 0)] \<noteq> sampleFeature 2 [(Num 0, Num 0)]"
    by (simp add: sampleFeature_def)
  then show ?thesis
    using sample_locate_first_of_equal by (simp add: sampleData_def sampleFeature_def)
qed

text \<open>
  C4, amended.  For a transect at position \<open>i\<close> of the loaded collection and a vertex
  of it with finite coordinates, the locator called with the vertex's coordinates
  returns the first transect in iteration order whose least vertex distance is 0; that
  least distance is exactly 0, and the transect returned is the one at position \<open>i\<close>
  whenever no earlier transect has least vertex distance 0.
\<close>

theorem findClosestTransect_at_vertex:
  assumes "i < length (features td)"
    and "(Num x, Num y) \<in> set (coordinates (geometry (features td ! i)))"
  shows "\<exists>k \<le> i.
           findClosestTransect (Some td) (Num y) (Num x) = Some (features td ! k) \<and>
           minVertexDistance (Num y) (Num x) (features td ! k) = Num 0 \<and>
           (\<forall>j < k. minVertexDistance (Num y) (Num x) (features td ! j) \<noteq> Num 0) \<and>
           ((\<forall>j < i. minVertexDistance (Num y) (Num x) (features td ! j) \<noteq> Num 0) \<longrightarrow> k = i)"
proof -
  let ?mvd = "minVertexDistance (Num y) (Num x)"
  let ?fs = "features td"
  have zi: "?mvd (?fs ! i) = Num 0"
    using minVertexDistance_at_vertex [OF assms(2)] .
  have notall: "\<not> (\<forall>f \<in> set ?fs. ?mvd f = Infinity)"
    using zi assms(1) by (metis nth_mem number.distinct(11))
  from findClosestTransect_cases [of td "Num y" "Num x"] notall
  obtain k where k: "k < length ?fs"
    and res: "findClosestTransect (Some td) (Num y) (Num x) = Some (?fs ! k)"
    and before: "\<forall>j < k. js_lt (?mvd (?fs ! k)) (?mvd (?fs ! j))"
    and least: "\<forall>j < length ?fs. \<not> js_lt (?mvd (?fs ! j)) (?mvd (?fs ! k))"
    by blast
  have le: "\<not> js_lt (Num 0) (?mvd (?fs ! k))"
    using least assms(1) zi by metis
  have zk: "?mvd (?fs ! k) = Num 0"
    using le minVertexDistance_nonneg [of "Num y" "Num x" "?fs ! k"]
      minVertexDistance_not_NaN [of "Num y" "Num x" "?fs ! k"]
    by (cases "?mvd (?fs ! k)") auto
  have ki: "k \<le> i"
  proof (rule ccontr)
    assume "\<not> k \<le> i"
    then have "js_lt (?mvd (?fs ! k)) (?mvd (?fs ! i))" using before by simp
    then show False using zk zi by simp
  qed
  have bz: "\<forall>j < k. ?mvd (?fs ! j) \<noteq> Num 0"
    using before zk by (metis js_lt_irrefl)
  have last: "(\<forall>j < i. ?mvd (?fs ! j) \<noteq> Num 0) \<longrightarrow> k = i"
    using ki zk by (metis le_neq_implies_less)
  show ?thesis using ki res zk bz last by blast
qed

theorem findClosestTransect_at_vertex_witness:
  "(1::nat) < length (features (sampleData [sampleFeature 1 [(Num 180, Num 0)],
                                             sampleFeature 2 [(Num 0, Num 0)]])) \<and>
   (Num 0, Num 0) \<in> set (coordinates (geometry
      (features (sampleData [sampleFeature 1 [(Num 180, Num 0)],
                             sampleFeature 2 [(Num 0, Num 0)]]) ! 1))) \<and>
   (\<exists>k \<le> 1.
      findClosestTransect
        (Some (sampleData [sampleFeature 1 [(Num 180, Num 0)], sampleFeature 2 [(Num 0, Num 0)]]))
        (Num 0) (Num 0)
      = Some (features (sampleData [sampleFeature 1 [(Num 180, Num 0)],
                                    sampleFeature 2 [(Num 0, Num 0)]]) ! k) \<and>
      minVertexDistance (Num 0) (Num 0)
        (features (sampleData [sampleFeature 1 [(Num 180, Num 0)],
                               sampleFeature 2 [(Num 0, Num 0)]]) ! k) = Num 0)"
proof -
  let ?td = "sampleData [sampleFeature 1 [(Num 180, Num 0)], sampleFeature 2 [(Num 0, Num 0)]]"
  have h1: "(1::nat) < length (features ?td)"
    by (simp add: sampleData_def)
  have h2: "(Num 0, Num 0) \<in> set (coordinates (geometry (features ?td ! 1)))"
    by (simp add: sampleData_def sampleFeature_def)
  from findClosestTransect_at_vertex [OF h1 h2] h1 h2
  show ?thesis by blast
qed

text \<open>
  C9.  When the transect_id of the closest transect is strictly equal to that of the
  hovered transect (both being none included), the handler leaves the state as it is
  and calls nothing; otherwise it stores the closest transect as the hovered one and,
  if a callback was passed, calls it once with the closest transect's vertex_id.
\<close>

theorem handleMapMouseMove_suppresses_same_transect:
  "(js_seq_opt
      (map_option (\<lambda>f. transect_id (properties f)) (hoveredTransect st))
      (map_option (\<lambda>f. transect_id (properties f))
         (findClosestTransect (transectData st) lat lng))
    \<longrightarrow> handleMapMouseMove cb st (lat, lng) = (st, [])) \<and>
   (\<not> js_seq_opt
      (map_option (\<lambda>f. transect_id (properties f)) (hoveredTransect st))
      (map_option (\<lambda>f. transect_id (properties f))
         (findClosestTransect (transectData st) lat lng))
    \<longrightarrow> handleMapMouseMove cb st (lat, lng) =
          (st\<lparr>hoveredTransect := findClosestTransect (transectData st) lat lng\<rparr>,
           if cb then [map_option (\<lambda>f. vertex_id (properties f))
                         (findClosestTransect (transectData st) lat lng)]
           else []))"
  by (simp add: handleMapMouseMove_def Let_def)

theorem handleMapMouseMove_suppresses_same_transect_witness:
  "js_seq_opt
      (map_option (\<lambda>f. transect_id (properties f))
         (hoveredTransect \<lparr>transectData = Some (sampleData [sampleFeature 1 [(Num 0, Num 0)]]),
                           hoveredTransect = Some (sampleFeature 1 [(Num 0, Num 0)])\<rparr>))
      (map_option (\<lambda>f. transect_id (properties f))
         (findClosestTransect
            (transectData \<lparr>transectData = Some (sampleData [sampleFeature 1 [(Num 0, Num 0)]]),
                           hoveredTransect = Some (sampleFeature 1 [(Num 0, Num 0)])\<rparr>)
            (Num 0) (Num 0))) \<and>
   handleMapMouseMove True
     \<lparr>transectData = Some (sampleData [sampleFeature 1 [(Num 0, Num 0)]]),
      hoveredTransect = Some (sampleFeature 1 [(Num 0, Num 0)])\<rparr> (Num 0, Num 0)
   = (\<lparr>transectData = Some (sampleData [sampleFeature 1 [(Num 0, Num 0)]]),
       hoveredTransect = Some (sampleFeature 1 [(Num 0, Num 0)])\<rparr>, [])"
proof -
  let ?st = "\<lparr>transectData = Some (sampleData [sampleFeature 1 [(Num 0, Num 0)]]),
              hoveredTransect = Some (sampleFeature 1 [(Num 0, Num 0)])\<rparr>"
  have loc: "findClosestTransect (transectData ?st) (Num 0) (Num 0)
             = Some (sampleFeature 1 [(Num 0, Num 0)])"
    using sample_near_distance [of 1]
    by (simp add: findClosestTransect_def sampleData_def minVertexDistance_def Let_def)
  have h: "js_seq_opt
      (map_option (\<lambda>f. transect_id (properties f)) (hoveredTransect ?st))
      (map_option (\<lambda>f. transect_id (properties f))
         (findClosestTransect (transectData ?st) (Num 0) (Num 0)))"
    unfolding loc by (simp add: sampleFeature_def js_seq_def)
  from handleMapMouseMove_suppresses_same_transect [of ?st "Num 0" "Num 0" True] h
  show ?thesis by blast
qed

section \<open>The haversine distance\<close>

lemma unit_dot_bounds:
  fixes s1 c1 s2 c2 k :: real
  assumes "s1\<^sup>2 + c1\<^sup>2 = 1" and "s2\<^sup>2 + c2\<^sup>2 = 1" and "k\<^sup>2 \<le> 1"
  shows "s1 * s2 + c1 * c2 * k \<le> 1" and "- 1 \<le> s1 * s2 + c1 * c2 * k"
proof -
  let ?d = "s1 * s2 + c1 * c2 * k"
  have nn: "0 \<le> c2\<^sup>2 * (1 - k\<^sup>2)" using assms(3) by simp
  have "(s1\<^sup>2 + c1\<^sup>2) + (s2\<^sup>2 + c2\<^sup>2) - 2 * ?d
          = (s1 - s2)\<^sup>2 + (c1 - c2 * k)\<^sup>2 + c2\<^sup>2 * (1 - k\<^sup>2)"
    by (simp add: power2_eq_square algebra_simps)
  then have "2 - 2 * ?d = (s1 - s2)\<^sup>2 + (c1 - c2 * k)\<^sup>2 + c2\<^sup>2 * (1 - k\<^sup>2)"
    using assms(1,2) by simp
  moreover have "0 \<le> (s1 - s2)\<^sup>2 + (c1 - c2 * k)\<^sup>2 + c2\<^sup>2 * (1 - k\<^sup>2)"
    using nn by (intro add_nonneg_nonneg) simp_all
  ultimately have "0 \<le> 2 - 2 * ?d" by simp
  then show "?d \<le> 1" by simp
  have "(s1\<^sup>2 + c1\<^sup>2) + (s2\<^sup>2 + c2\<^sup>2) + 2 * ?d
          = (s1 + s2)\<^sup>2 + (c1 + c2 * k)\<^sup>2 + c2\<^sup>2 * (1 - k\<^sup>2)"
    by (simp add: power2_eq_square algebra_simps)
  then have "2 + 2 * ?d = (s1 + s2)\<^sup>2 + (c1 + c2 * k)\<^sup>2 + c2\<^sup>2 * (1 - k\<^sup>2)"
    using assms(1,2) by simp
  moreover have "0 \<le> (s1 + s2)\<^sup>2 + (c1 + c2 * k)\<^sup>2 + c2\<^sup>2 * (1 - k\<^sup>2)"
    using nn by (intro add_nonneg_nonneg) simp_all
  ultimately have "0 \<le> 2 + 2 * ?d" by simp
  then show "- 1 \<le> ?d" by simp
qed

lemma sin_half_squared: "(sin (x / 2))\<^sup>2 = (1 - cos x) / (2::real)"
  using cos_double_sin [of "x / 2"] by simp

lemma haversine_a_dot:
  "1 - 2 * haversine_a lat1 lon1 lat2 lon2 =
     sin (lat1 * pi / 180) * sin (lat2 * pi / 180)
     + cos (lat1 * pi / 180) * cos (lat2 * pi / 180) * cos (lon2 * pi / 180 - lon1 * pi / 180)"
proof -
  have alg: "1 - 2 * ((1 - (c2 * c1 + s2 * s1)) / 2 + c1 * c2 * ((1 - k) / 2))
               = s1 * s2 + c1 * c2 * k" for s1 s2 c1 c2 k :: real
    by (simp add: field_simps)
  show ?thesis
    unfolding haversine_a_def Let_def sin_half_squared
      cos_diff [of "lat2 * pi / 180" "lat1 * pi / 180"]
    by (rule alg)
qed

lemma haversine_a_bounds:
  shows "0 \<le> haversine_a lat1 lon1 lat2 lon2" "haversine_a lat1 lon1 lat2 lon2 \<le> 1"
proof -
  let ?k = "cos (lon2 * pi / 180 - lon1 * pi / 180)"
  have k: "?k\<^sup>2 \<le> 1"
    using abs_cos_le_one [of "lon2 * pi / 180 - lon1 * pi / 180"]
    by (simp add: abs_square_le_1)
  have s1: "(sin (lat1 * pi / 180))\<^sup>2 + (cos (lat1 * pi / 180))\<^sup>2 = 1" by simp
  have s2: "(sin (lat2 * pi / 180))\<^sup>2 + (cos (lat2 * pi / 180))\<^sup>2 = 1" by simp
  have d: "1 - 2 * haversine_a lat1 lon1 lat2 lon2 \<le> 1"
    "- 1 \<le> 1 - 2 * haversine_a lat1 lon1 lat2 lon2"
    unfolding haversine_a_dot using unit_dot_bounds [OF s1 s2 k] by blast+
  show "0 \<le> haversine_a lat1 lon1 lat2 lon2" using d(1) by linarith
  show "haversine_a lat1 lon1 lat2 lon2 \<le> 1" using d(2) by linarith
qed

lemma two_atan2_sqrt:
  assumes "0 \<le> a" and "a \<le> 1"
  shows "2 * atan2 (sqrt a) (sqrt (1 - a)) = arccos (1 - 2 * a)"
proof (cases "a = 1")
  case True
  then show ?thesis by (simp add: atan2_def)
next
  case False
  then have lt: "a < 1" using assms(2) by simp
  let ?t = "arctan (sqrt a / sqrt (1 - a))"
  have pos: "0 < sqrt (1 - a)" using lt by simp
  have at: "atan2 (sqrt a) (sqrt (1 - a)) = ?t" using pos by (simp add: atan2_def)
  have t0: "0 \<le> ?t" using assms(1) pos by (simp add: zero_le_arctan_iff)
  have t1: "?t < pi / 2" by (rule arctan_ubound)
  have "1 + (sqrt a / sqrt (1 - a))\<^sup>2 = 1 / (1 - a)"
    using lt assms(1) by (simp add: power_divide field_simps)
  then have "cos ?t = 1 / sqrt (1 / (1 - a))"
    by (simp add: cos_arctan)
  then have ct: "cos ?t = sqrt (1 - a)"
    using lt by (simp add: real_sqrt_divide)
  have "cos (2 * ?t) = 2 * (cos ?t)\<^sup>2 - 1" by (rule cos_double_cos)
  also have "\<dots> = 1 - 2 * a" using ct lt by simp
  finally have c2: "cos (2 * ?t) = 1 - 2 * a" .
  have "arccos (cos (2 * ?t)) = 2 * ?t"
    using t0 t1 by (intro arccos_cos) simp_all
  then show ?thesis using c2 at by simp
qed

lemma calculateDistance_Num_unfold:
  "calculateDistance (Num lat1) (Num lon1) (Num lat2) (Num lon2) =
     js_mul (Num 6371000) (js_mul (Num 2)
       (Math_atan2
          (Math_sqrt (Num (sin ((lat2 - lat1) * pi / 180 / 2) * sin ((lat2 - lat1) * pi / 180 / 2)
             + cos (lat1 * pi / 180) * cos (lat2 * pi / 180) * sin ((lon2 - lon1) * pi / 180 / 2)
               * sin ((lon2 - lon1) * pi / 180 / 2))))
          (Math_sqrt (js_sub (Num 1)
             (Num (sin ((lat2 - lat1) * pi / 180 / 2) * sin ((lat2 - lat1) * pi / 180 / 2)
             + cos (lat1 * pi / 180) * cos (lat2 * pi / 180) * sin ((lon2 - lon1) * pi / 180 / 2)
               * sin ((lon2 - lon1) * pi / 180 / 2)))))))"
  by (simp add: calculateDistance_def Let_def js_sub_def Math_PI_def)

lemma code_a_eq_haversine_a:
  "sin ((lat2 - lat1) * pi / 180 / 2) * sin ((lat2 - lat1) * pi / 180 / 2)
     + cos (lat1 * pi / 180) * cos (lat2 * pi / 180) * sin ((lon2 - lon1) * pi / 180 / 2)
       * sin ((lon2 - lon1) * pi / 180 / 2)
   = haversine_a lat1 lon1 lat2 lon2"
proof -
  have p: "(lat2 - lat1) * pi / 180 = lat2 * pi / 180 - lat1 * pi / 180"
    by (simp add: algebra_simps diff_divide_distrib)
  have l: "(lon2 - lon1) * pi / 180 = lon2 * pi / 180 - lon1 * pi / 180"
    by (simp add: algebra_simps diff_divide_distrib)
  show ?thesis
    unfolding haversine_a_def Let_def p l power2_eq_square by (simp add: mult.assoc)
qed

text \<open>
  In exact arithmetic, for two points with finite coordinates in degrees,
  \<open>calculateDistance\<close> is \<open>R * c\<close> with \<open>R = 6371000\<close>,
  \<open>c = 2 * atan2 (sqrt a) (sqrt (1 - a))\<close> and \<open>a\<close> the haversine quantity; \<open>a\<close> lies
  between 0 and 1 and \<open>c\<close> is the central angle of the two points.  This is a property
  of the formula over the reals only: it says nothing about the rounded computation.
\<close>

lemma calculateDistance_exact_haversine:
  "calculateDistance (Num lat1) (Num lon1) (Num lat2) (Num lon2) =
     Num (6371000 *
       (2 * atan2 (sqrt (haversine_a lat1 lon1 lat2 lon2))
                  (sqrt (1 - haversine_a lat1 lon1 lat2 lon2)))) \<and>
   0 \<le> haversine_a lat1 lon1 lat2 lon2 \<and> haversine_a lat1 lon1 lat2 lon2 \<le> 1 \<and>
   calculateDistance (Num lat1) (Num lon1) (Num lat2) (Num lon2) =
     Num (6371000 * central_angle lat1 lon1 lat2 lon2)"
proof -
  let ?a = "haversine_a lat1 lon1 lat2 lon2"
  have a0: "0 \<le> ?a" by (rule haversine_a_bounds(1))
  have a1: "?a \<le> 1" by (rule haversine_a_bounds(2))
  have form: "calculateDistance (Num lat1) (Num lon1) (Num lat2) (Num lon2) =
      Num (6371000 * (2 * atan2 (sqrt ?a) (sqrt (1 - ?a))))"
    unfolding calculateDistance_Num_unfold code_a_eq_haversine_a
    using a0 a1 by (simp add: js_sub_def)
  have "central_angle lat1 lon1 lat2 lon2 = arccos (1 - 2 * ?a)"
    unfolding haversine_a_dot by (simp add: central_angle_def Let_def)
  then have "central_angle lat1 lon1 lat2 lon2 = 2 * atan2 (sqrt ?a) (sqrt (1 - ?a))"
    using two_atan2_sqrt [OF a0 a1] by simp
  then show ?thesis using form a0 a1 by simp
qed

section \<open>The scalers\<close>

lemma innerW_value: "innerW = Num 936"
  by (simp add: innerW_def width_def margin_def js_sub_def)

lemma innerH_value: "innerH = Num 150"
  by (simp add: innerH_def height_def margin_def js_sub_def)

lemma innerW_Lateral_value: "innerW_Lateral = Num 536"
  by (simp add: innerW_Lateral_def width_Lateral_def margin_Lateral_def js_sub_def)

lemma innerH_Lateral_value: "innerH_Lateral = Num 260"
  by (simp add: innerH_Lateral_def height_Lateral_def margin_Lateral_def js_sub_def)

lemma js_sub_zero_iff: "js_sub a b = Num 0 \<longleftrightarrow> (\<exists>r. a = Num r \<and> b = Num r)"
  by (cases a; cases b) (auto simp: js_sub_def)

lemma xScale_Num:
  "a \<noteq> b \<Longrightarrow> xScale (Num a) (Num b) (Num v) = Num (52 + (v - a) / (b - a) * 936)"
  by (simp add: xScale_def js_seq_def js_sub_def innerW_value margin_def)

lemma yScale_Num:
  "a \<noteq> b \<Longrightarrow> yScale (Num a) (Num b) (Num v) = Num (174 - (v - a) / (b - a) * 150)"
  by (simp add: yScale_def js_seq_def js_sub_def innerH_value margin_def)

lemma xScale_Lateral_Num: "xScale_Lateral (Num v) = Num (52 + v / 40 * 536)"
  by (simp add: xScale_Lateral_def js_sub_def innerW_Lateral_value margin_Lateral_def
      minX_Lateral_def maxX_Lateral_def)

lemma yScale_Lateral_Num: "yScale_Lateral (Num v) = Num (272 - (v + 20) / 40 * 260)"
  by (simp add: yScale_Lateral_def js_sub_def innerH_Lateral_value margin_Lateral_def
      minY_Lateral_def maxY_Lateral_def)

lemma xScale_degenerate: "js_seq maxX minX \<Longrightarrow> xScale minX maxX x = Num 520"
  by (simp add: xScale_def innerW_value margin_def)

lemma yScale_degenerate: "js_seq maxY' minY' \<Longrightarrow> yScale minY' maxY' y = Num 99"
  by (simp add: yScale_def innerH_value margin_def)

text \<open>
  C2.  With a degenerate domain (\<open>maxX === minX\<close>) the scalers of the longitudinal
  chart return, for every value, the midpoint of their pixel range (520 of
  \<open>[52, 988]\<close> and 99 of \<open>[24, 174]\<close>).  The division is reached only with a divisor
  that is not zero: in the longitudinal chart it is guarded by the test, and in the
  lateral chart and for the fixed \<open>minY\<close>, \<open>maxY\<close> the divisors are the constants 40
  and 22.5.  Hence every scaler maps a finite value to a finite coordinate.
\<close>

theorem scaler_degenerate_midpoint:
  "(js_seq maxX minX \<longrightarrow>
      xScale minX maxX x = midpoint_px (m_left margin) (js_add (m_left margin) innerW) \<and>
      xScale minX maxX x = Num 520) \<and>
   (js_seq maxY' minY' \<longrightarrow>
      yScale minY' maxY' y = midpoint_px (m_top margin) (js_add (m_top margin) innerH) \<and>
      yScale minY' maxY' y = Num 99) \<and>
   (\<not> js_seq maxX minX \<longrightarrow> js_sub maxX minX \<noteq> Num 0) \<and>
   js_sub maxY minY = Num 22.5 \<and>
   js_sub maxX_Lateral minX_Lateral = Num 40 \<and>
   js_sub maxY_Lateral minY_Lateral = Num 40 \<and>
   (\<exists>r. xScale (Num a) (Num b) (Num v) = Num r) \<and>
   (\<exists>r. yScale minY maxY (Num v) = Num r) \<and>
   (\<exists>r. xScale_Lateral (Num v) = Num r) \<and>
   (\<exists>r. yScale_Lateral (Num v) = Num r)"
proof (intro conjI impI)
  assume "js_seq maxX minX"
  then show "xScale minX maxX x = midpoint_px (m_left margin) (js_add (m_left margin) innerW)"
    and "xScale minX maxX x = Num 520"
    by (simp_all add: xScale_degenerate midpoint_px_def innerW_value margin_def)
next
  assume "js_seq maxY' minY'"
  then show "yScale minY' maxY' y = midpoint_px (m_top margin) (js_add (m_top margin) innerH)"
    and "yScale minY' maxY' y = Num 99"
    by (simp_all add: yScale_degenerate midpoint_px_def innerH_value margin_def)
next
  assume "\<not> js_seq maxX minX"
  then show "js_sub maxX minX \<noteq> Num 0"
    by (auto simp: js_sub_zero_iff js_seq_def)
next
  show "js_sub maxY minY = Num 22.5"
    by (simp add: js_sub_def minY_def maxY_def)
  show "js_sub maxX_Lateral minX_Lateral = Num 40"
    by (simp add: js_sub_def minX_Lateral_def maxX_Lateral_def)
  show "js_sub maxY_Lateral minY_Lateral = Num 40"
    by (simp add: js_sub_def minY_Lateral_def maxY_Lateral_def)
  show "\<exists>r. xScale (Num a) (Num b) (Num v) = Num r"
  proof (cases "a = b")
    case True
    then show ?thesis by (simp add: xScale_degenerate js_seq_def)
  next
    case False
    then show ?thesis by (simp add: xScale_Num)
  qed
  show "\<exists>r. yScale minY maxY (Num v) = Num r"
    by (simp add: minY_def maxY_def yScale_Num)
  show "\<exists>r. xScale_Lateral (Num v) = Num r"
    by (simp add: xScale_Lateral_Num)
  show "\<exists>r. yScale_Lateral (Num v) = Num r"
    by (simp add: yScale_Lateral_Num)
qed

theorem scaler_degenerate_midpoint_witness:
  "js_seq (Num 5) (Num 5) \<and> xScale (Num 5) (Num 5) (Num 7) = Num 520 \<and>
   \<not> js_seq (Num 9) (Num 5) \<and> js_sub (Num 9) (Num 5) \<noteq> Num 0"
proof -
  have h1: "js_seq (Num 5) (Num 5)" by (simp add: js_seq_def)
  have h2: "\<not> js_seq (Num 9) (Num 5)" by (simp add: js_seq_def)
  from scaler_degenerate_midpoint [of "Num 5" "Num 5" "Num 7" "Num 5" "Num 5" "Num 7"]
    scaler_degenerate_midpoint [of "Num 9" "Num 5" "Num 7" "Num 5" "Num 5" "Num 7"] h1 h2
  show ?thesis by blast
qed

text \<open>
  C5, as stated, fails: the lateral chart's \<open>xScale\<close> maps 0 to 52 and 52 to a
  value near 748.8, and the longitudinal chart's \<open>xScale\<close> on the domain \<open>[0, 1]\<close>
  maps 0 to 52 and 52 to 48724.
\<close>

theorem scaler_idempotent_counterexample:
  "xScale_Lateral (xScale_Lateral (Num 0)) \<noteq> xScale_Lateral (Num 0) \<and>
   xScale (Num 0) (Num 1) (xScale (Num 0) (Num 1) (Num 0)) \<noteq> xScale (Num 0) (Num 1) (Num 0)"
  by (simp add: xScale_Lateral_Num xScale_Num)

text \<open>
  C5, amended.  With a degenerate domain (\<open>max === min\<close>) the scalers of the
  longitudinal chart are idempotent: for every value, applying the scaler to its own
  output gives the same result as applying it once.
\<close>

theorem scaler_idempotent_degenerate:
  "(js_seq maxX minX \<longrightarrow>
      xScale minX maxX (xScale minX maxX x) = xScale minX maxX x) \<and>
   (js_seq maxY' minY' \<longrightarrow>
      yScale minY' maxY' (yScale minY' maxY' y) = yScale minY' maxY' y)"
  by (simp add: xScale_degenerate yScale_degenerate)

theorem scaler_idempotent_degenerate_witness:
  "js_seq (Num 5) (Num 5) \<and>
   xScale (Num 5) (Num 5) (xScale (Num 5) (Num 5) (Num 7)) = xScale (Num 5) (Num 5) (Num 7) \<and>
   xScale (Num 5) (Num 5) (Num 7) = Num 520"
proof -
  have h: "js_seq (Num 5) (Num 5)" by (simp add: js_seq_def)
  from scaler_idempotent_degenerate [of "Num 5" "Num 5" "Num 7" "Num 5" "Num 5" "Num 7"] h
  show ?thesis by (simp add: xScale_degenerate)
qed

section \<open>The CSV loaders\<close>

lemma filter_tl_dropWhile: "filter P (tl (dropWhile (\<lambda>x. \<not> P x) xs)) = tl (filter P xs)"
  by (induction xs) auto

lemma hd_filter_dropWhile:
  "filter P xs \<noteq> [] \<Longrightarrow> hd (filter P xs) = hd (dropWhile (\<lambda>x. \<not> P x) xs)"
  by (induction xs) auto

lemma dataLines_eq: "dataLines csv = tl (filter nonBlank (splitLines csv))"
  by (simp add: dataLines_def headerAndRest_def filter_tl_dropWhile)

lemma csvHeaders_eq:
  "filter nonBlank (splitLines csv) \<noteq> [] \<Longrightarrow>
   csvHeaders csv = map trim (splitComma (hd (filter nonBlank (splitLines csv))))"
  by (simp add: csvHeaders_def headerAndRest_def hd_filter_dropWhile)

lemma parseCsv_rows: "parseCsv csv = map (rowOf (csvHeaders csv)) (dataLines csv)"
proof (cases "filter nonBlank (splitLines csv) = []")
  case True
  then show ?thesis by (simp add: parseCsv_def dataLines_eq)
next
  case False
  then show ?thesis by (simp add: parseCsv_def Let_def dataLines_eq csvHeaders_eq)
qed

lemma parseCsv_stream_rows:
  "parseCsv_stream csv = map (rowOf_stream (csvHeaders csv)) (dataLines csv)"
proof (cases "filter nonBlank (splitLines csv) = []")
  case True
  then show ?thesis by (simp add: parseCsv_stream_def dataLines_eq)
next
  case False
  then show ?thesis by (simp add: parseCsv_stream_def Let_def dataLines_eq csvHeaders_eq)
qed

lemma dataLines_all_blank:
  "\<forall>l \<in> set (splitLines csv). \<not> nonBlank l \<Longrightarrow> dataLines csv = []"
  by (simp add: dataLines_eq filter_False)

lemma sample_csv_lines:
  "splitLines ''transect_id,vertex_index,elevation\<newline>1,0,10.5\<newline>1,1,9.0''
   = [''transect_id,vertex_index,elevation'', ''1,0,10.5'', ''1,1,9.0'']"
  by simp

lemma nonBlank_sample:
  "nonBlank ''transect_id,vertex_index,elevation''" "nonBlank ''1,0,10.5''" "nonBlank ''1,1,9.0''"
  by (simp_all add: nonBlank_def trim_def isWhiteSpace_def)

lemma sample_csv_dataLines:
  "dataLines ''transect_id,vertex_index,elevation\<newline>1,0,10.5\<newline>1,1,9.0''
   = [''1,0,10.5'', ''1,1,9.0'']"
  unfolding dataLines_eq sample_csv_lines by (simp add: nonBlank_sample)

lemma sample_csv_headers:
  "csvHeaders ''transect_id,vertex_index,elevation\<newline>1,0,10.5\<newline>1,1,9.0''
   = [''transect_id'', ''vertex_index'', ''elevation'']"
  unfolding csvHeaders_def headerAndRest_def sample_csv_lines
  by (simp add: nonBlank_sample trim_def isWhiteSpace_def)

lemma sample_row_ids:
  "rowOf [''transect_id'', ''vertex_index'', ''elevation''] ''1,0,10.5'' ''transect_id''
     = Some (Number (Num 1))"
  "rowOf [''transect_id'', ''vertex_index'', ''elevation''] ''1,1,9.0'' ''transect_id''
     = Some (Number (Num 1))"
  "rowOf [''transect_id'', ''vertex_index'', ''elevation''] ''1,0,10.5'' ''elevation''
     = Some (Number (Num 10.5))"
  by (simp_all add: rowOf_def rawRow_def Let_def setProperty_def propertyText_def trim_def
      isWhiteSpace_def parseInt_def parseFloat_def trimStart_def isDigit_def digitsValue_def
      digitValue_def isPrefixOf_def)

lemma dataLines_subseq: "subseq (dataLines csv) (splitLines csv)"
proof -
  have "suffix (tl (headerAndRest csv)) (splitLines csv)"
    unfolding headerAndRest_def
    using suffix_tl suffix_dropWhile suffix_order.trans by blast
  then have "subseq (tl (headerAndRest csv)) (splitLines csv)" by blast
  moreover have "subseq (dataLines csv) (tl (headerAndRest csv))"
    by (simp add: dataLines_def)
  ultimately show ?thesis using subseq_order.trans by blast
qed

text \<open>
  C3.  Both loaders produce exactly one record per data line (a line after the header
  whose trimmed content is not empty): the \<open>i\<close>-th record is built from the \<open>i\<close>-th data
  line, and the data lines are a subsequence of the input lines, so the input order is
  kept.  On input all of whose lines are blank, the empty text included, they return
  no rows.  The loaders are total: no input makes them fail.
\<close>

theorem parseCsv_one_record_per_data_line:
  "length (parseCsv csv) = length (dataLines csv) \<and>
   (\<forall>i < length (dataLines csv).
      parseCsv csv ! i = rowOf (csvHeaders csv) (dataLines csv ! i)) \<and>
   length (parseCsv_stream csv) = length (dataLines csv) \<and>
   (\<forall>i < length (dataLines csv).
      parseCsv_stream csv ! i = rowOf_stream (csvHeaders csv) (dataLines csv ! i)) \<and>
   subseq (dataLines csv) (splitLines csv) \<and>
   ((\<forall>l \<in> set (splitLines csv). \<not> nonBlank l) \<longrightarrow>
      parseCsv csv = [] \<and> parseCsv_stream csv = []) \<and>
   parseCsv [] = [] \<and> parseCsv_stream [] = []"
proof (intro conjI impI allI)
  show "length (parseCsv csv) = length (dataLines csv)"
    by (simp add: parseCsv_rows)
  show "length (parseCsv_stream csv) = length (dataLines csv)"
    by (simp add: parseCsv_stream_rows)
  show "subseq (dataLines csv) (splitLines csv)"
    by (rule dataLines_subseq)
  show "parseCsv [] = []"
    by (simp add: parseCsv_def nonBlank_def trim_def)
  show "parseCsv_stream [] = []"
    by (simp add: parseCsv_stream_def nonBlank_def trim_def)
next
  fix i assume "i < length (dataLines csv)"
  then show "parseCsv csv ! i = rowOf (csvHeaders csv) (dataLines csv ! i)"
    by (simp add: parseCsv_rows)
next
  fix i assume "i < length (dataLines csv)"
  then show "parseCsv_stream csv ! i = rowOf_stream (csvHeaders csv) (dataLines csv ! i)"
    by (simp add: parseCsv_stream_rows)
next
  assume blank: "\<forall>l \<in> set (splitLines csv). \<not> nonBlank l"
  show "parseCsv csv = []"
    using dataLines_all_blank [OF blank] by (simp add: parseCsv_rows)
  show "parseCsv_stream csv = []"
    using dataLines_all_blank [OF blank] by (simp add: parseCsv_stream_rows)
qed

theorem parseCsv_one_record_per_data_line_witness:
  "length (parseCsv ''transect_id,vertex_index,elevation\<newline>1,0,10.5\<newline>1,1,9.0'') = 2 \<and>
   (parseCsv ''transect_id,vertex_index,elevation\<newline>1,0,10.5\<newline>1,1,9.0'' ! 0) ''transect_id''
     = Some (Number (Num 1)) \<and>
   (parseCsv ''transect_id,vertex_index,elevation\<newline>1,0,10.5\<newline>1,1,9.0'' ! 1) ''transect_id''
     = Some (Number (Num 1)) \<and>
   (parseCsv ''transect_id,vertex_index,elevation\<newline>1,0,10.5\<newline>1,1,9.0'' ! 0) ''elevation''
     = Some (Number (Num 10.5))"
proof -
  let ?csv = "''transect_id,vertex_index,elevation\<newline>1,0,10.5\<newline>1,1,9.0''"
  note t = parseCsv_one_record_per_data_line [of ?csv]
  have len: "length (parseCsv ?csv) = 2"
    using t by (simp add: sample_csv_dataLines)
  have rows: "\<forall>i < length (dataLines ?csv).
      parseCsv ?csv ! i = rowOf (csvHeaders ?csv) (dataLines ?csv ! i)"
    using t by blast
  have r0: "parseCsv ?csv ! 0 = rowOf [''transect_id'', ''vertex_index'', ''elevation''] ''1,0,10.5''"
    using rows [rule_format, of 0] by (simp add: sample_csv_dataLines sample_csv_headers)
  have r1: "parseCsv ?csv ! 1 = rowOf [''transect_id'', ''vertex_index'', ''elevation''] ''1,1,9.0''"
    using rows [rule_format, of 1] by (simp add: sample_csv_dataLines sample_csv_headers)
  show ?thesis
    unfolding r0 r1 using len by (simp add: sample_row_ids)
qed

lemma parseInt_NaN_iff: "parseInt s = NaN \<longleftrightarrow> \<not> integerText s"
  by (simp add: parseInt_def integerText_def unsignedPart_def Let_def takeWhile_eq_Nil_iff)

lemma parseFloat_NaN_iff: "parseFloat s = NaN \<longleftrightarrow> \<not> decimalText s"
proof -
  define U where "U = unsignedPart s"
  have 1: "parseFloat s = NaN \<longleftrightarrow>
      (\<not> isPrefixOf ''Infinity'' U \<and> takeWhile isDigit U = [] \<and>
       (if dropWhile isDigit U \<noteq> [] \<and> hd (dropWhile isDigit U) = CHR ''.''
        then takeWhile isDigit (tl (dropWhile isDigit U)) else []) = [])"
    unfolding U_def by (simp add: parseFloat_def unsignedPart_def Let_def)
  have 2: "(\<not> isPrefixOf ''Infinity'' U \<and> takeWhile isDigit U = [] \<and>
       (if dropWhile isDigit U \<noteq> [] \<and> hd (dropWhile isDigit U) = CHR ''.''
        then takeWhile isDigit (tl (dropWhile isDigit U)) else []) = [])
    \<longleftrightarrow> \<not> (isPrefixOf ''Infinity'' U \<or> (U \<noteq> [] \<and> isDigit (hd U))
            \<or> (2 \<le> length U \<and> hd U = CHR ''.'' \<and> isDigit (U ! 1)))"
  proof (cases U)
    case Nil
    then show ?thesis by simp
  next
    case (Cons c cs)
    then show ?thesis
      by (cases cs) (auto simp: takeWhile_eq_Nil_iff isDigit_def)
  qed
  show ?thesis
    using 1 2 by (simp add: decimalText_def U_def Let_def)
qed

lemma rowOf_fields:
  "rowOf hs l ''transect_id''
     = Some (Number (parseInt (propertyText (rawRow hs l ''transect_id''))))"
  "rowOf hs l ''vertex_index''
     = Some (Number (parseInt (propertyText (rawRow hs l ''vertex_index''))))"
  "rowOf hs l ''elevation''
     = Some (Number (parseFloat (propertyText (rawRow hs l ''elevation''))))"
  "rawRow hs l ''dam'' = Some t \<Longrightarrow>
   rowOf hs l ''dam'' = Some (if parseFloat t = NaN then Undefined else Number (parseFloat t))"
  by (simp_all add: rowOf_def Let_def propertyText_def)

lemma rowOf_stream_fields:
  "rawRow hs l ''vertex_id'' = Some t \<Longrightarrow>
   rowOf_stream hs l ''vertex_id'' = Some (Number (parseInt t))"
  "rawRow hs l ''elevation_normalized_m'' = Some t \<Longrightarrow>
   rowOf_stream hs l ''elevation_normalized_m'' = Some (Number (parseFloat t))"
  "rawRow hs l ''elevation'' = Some t \<Longrightarrow>
   rowOf_stream hs l ''elevation'' = Some (Number (parseFloat t))"
  by (simp_all add: rowOf_stream_def Let_def split: option.splits)


lemma sample_dam_csv:
  "dataLines ''dam\<newline>x'' = [''x'']" "csvHeaders ''dam\<newline>x'' = [''dam'']"
  by (simp_all add: dataLines_eq csvHeaders_def headerAndRest_def nonBlank_def trim_def
      isWhiteSpace_def)

lemma sample_dam_raw: "rawRow [''dam''] ''x'' ''dam'' = Some ''x''"
  by (simp add: rawRow_def setProperty_def trim_def isWhiteSpace_def)

lemma sample_dam_text: "\<not> decimalText ''x''"
  by (simp add: decimalText_def unsignedPart_def trimStart_def isWhiteSpace_def isPrefixOf_def
      isDigit_def)

text \<open>
  C6, as stated, fails for the field \<open>dam\<close>: the transect-elevations loader stores
  \<open>undefined\<close>, not NaN, when the text of \<open>dam\<close> is not numeric.
\<close>

theorem parseCsv_dam_counterexample:
  "rawRow (csvHeaders ''dam\<newline>x'') (dataLines ''dam\<newline>x'' ! 0) ''dam'' = Some ''x'' \<and>
   \<not> decimalText ''x'' \<and>
   (parseCsv ''dam\<newline>x'' ! 0) ''dam'' = Some Undefined \<and>
   (parseCsv ''dam\<newline>x'' ! 0) ''dam'' \<noteq> Some (Number NaN)"
proof -
  have nan: "parseFloat ''x'' = NaN"
    using sample_dam_text by (simp add: parseFloat_NaN_iff)
  have "(parseCsv ''dam\<newline>x'' ! 0) ''dam'' = Some Undefined"
    by (simp add: parseCsv_rows sample_dam_csv rowOf_fields(4) [OF sample_dam_raw] nan)
  then show ?thesis
    by (simp add: sample_dam_csv sample_dam_raw sample_dam_text)
qed

text \<open>
  C6, amended.  In every record the loaders emit, a field whose text is not numeric is
  NaN for \<open>transect_id\<close>, \<open>vertex_index\<close> and \<open>elevation\<close> (transect elevations) and for
  \<open>vertex_id\<close>, \<open>elevation_normalized_m\<close> and \<open>elevation\<close> (stream elevations); for
  \<open>dam\<close> it is \<open>undefined\<close>.  The text of a field is what the header loop stored for
  it; the loaders are total, so no input raises an error.
\<close>

theorem parseCsv_non_numeric_fields:
  "\<forall>i < length (dataLines csv). \<forall>t.
     ((rawRow (csvHeaders csv) (dataLines csv ! i) ''transect_id'' = Some t \<and> \<not> integerText t
        \<longrightarrow> (parseCsv csv ! i) ''transect_id'' = Some (Number NaN)) \<and>
      (rawRow (csvHeaders csv) (dataLines csv ! i) ''vertex_index'' = Some t \<and> \<not> integerText t
        \<longrightarrow> (parseCsv csv ! i) ''vertex_index'' = Some (Number NaN)) \<and>
      (rawRow (csvHeaders csv) (dataLines csv ! i) ''elevation'' = Some t \<and> \<not> decimalText t
        \<longrightarrow> (parseCsv csv ! i) ''elevation'' = Some (Number NaN)) \<and>
      (rawRow (csvHeaders csv) (dataLines csv ! i) ''dam'' = Some t \<and> \<not> decimalText t
        \<longrightarrow> (parseCsv csv ! i) ''dam'' = Some Undefined) \<and>
      (rawRow (csvHeaders csv) (dataLines csv ! i) ''vertex_id'' = Some t \<and> \<not> integerText t
        \<longrightarrow> (parseCsv_stream csv ! i) ''vertex_id'' = Some (Number NaN)) \<and>
      (rawRow (csvHeaders csv) (dataLines csv ! i) ''elevation_normalized_m'' = Some t
         \<and> \<not> decimalText t
        \<longrightarrow> (parseCsv_stream csv ! i) ''elevation_normalized_m'' = Some (Number NaN)) \<and>
      (rawRow (csvHeaders csv) (dataLines csv ! i) ''elevation'' = Some t \<and> \<not> decimalText t
        \<longrightarrow> (parseCsv_stream csv ! i) ''elevation'' = Some (Number NaN)))"
proof (intro allI impI conjI)
  fix i t
  assume i: "i < length (dataLines csv)"
  let ?raw = "rawRow (csvHeaders csv) (dataLines csv ! i)"
  have r: "parseCsv csv ! i = rowOf (csvHeaders csv) (dataLines csv ! i)"
    using i by (simp add: parseCsv_rows)
  have s: "parseCsv_stream csv ! i = rowOf_stream (csvHeaders csv) (dataLines csv ! i)"
    using i by (simp add: parseCsv_stream_rows)
  show "(parseCsv csv ! i) ''transect_id'' = Some (Number NaN)"
    if "?raw ''transect_id'' = Some t \<and> \<not> integerText t"
    using that by (simp add: r rowOf_fields(1) propertyText_def parseInt_NaN_iff)
  show "(parseCsv csv ! i) ''vertex_index'' = Some (Number NaN)"
    if "?raw ''vertex_index'' = Some t \<and> \<not> integerText t"
    using that by (simp add: r rowOf_fields(2) propertyText_def parseInt_NaN_iff)
  show "(parseCsv csv ! i) ''elevation'' = Some (Number NaN)"
    if "?raw ''elevation'' = Some t \<and> \<not> decimalText t"
    using that by (simp add: r rowOf_fields(3) propertyText_def parseFloat_NaN_iff)
  show "(parseCsv csv ! i) ''dam'' = Some Undefined"
    if "?raw ''dam'' = Some t \<and> \<not> decimalText t"
    using that by (simp add: r rowOf_fields(4) parseFloat_NaN_iff)
  show "(parseCsv_stream csv ! i) ''vertex_id'' = Some (Number NaN)"
    if "?raw ''vertex_id'' = Some t \<and> \<not> integerText t"
    using that by (simp add: s rowOf_stream_fields(1) parseInt_NaN_iff)
  show "(parseCsv_stream csv ! i) ''elevation_normalized_m'' = Some (Number NaN)"
    if "?raw ''elevation_normalized_m'' = Some t \<and> \<not> decimalText t"
    using that by (simp add: s rowOf_stream_fields(2) parseFloat_NaN_iff)
  show "(parseCsv_stream csv ! i) ''elevation'' = Some (Number NaN)"
    if "?raw ''elevation'' = Some t \<and> \<not> decimalText t"
    using that by (simp add: s rowOf_stream_fields(3) parseFloat_NaN_iff)
qed

lemma sample_bad_csv:
  "dataLines ''transect_id,dam\<newline>abc,x'' = [''abc,x'']"
  "csvHeaders ''transect_id,dam\<newline>abc,x'' = [''transect_id'', ''dam'']"
  by (simp_all add: dataLines_eq csvHeaders_def headerAndRest_def nonBlank_def trim_def
      isWhiteSpace_def)

lemma sample_bad_raw:
  "rawRow [''transect_id'', ''dam''] ''abc,x'' ''transect_id'' = Some ''abc''"
  "rawRow [''transect_id'', ''dam''] ''abc,x'' ''dam'' = Some ''x''"
  by (simp_all add: rawRow_def setProperty_def trim_def isWhiteSpace_def)

lemma sample_bad_text: "\<not> integerText ''abc''"
  by (simp add: integerText_def unsignedPart_def trimStart_def isWhiteSpace_def isDigit_def)

theorem parseCsv_non_numeric_fields_witness:
  "(0::nat) < length (dataLines ''transect_id,dam\<newline>abc,x'') \<and>
   rawRow (csvHeaders ''transect_id,dam\<newline>abc,x'') (dataLines ''transect_id,dam\<newline>abc,x'' ! 0)
     ''transect_id'' = Some ''abc'' \<and>
   \<not> integerText ''abc'' \<and>
   (parseCsv ''transect_id,dam\<newline>abc,x'' ! 0) ''transect_id'' = Some (Number NaN) \<and>
   rawRow (csvHeaders ''transect_id,dam\<newline>abc,x'') (dataLines ''transect_id,dam\<newline>abc,x'' ! 0)
     ''dam'' = Some ''x'' \<and>
   \<not> decimalText ''x'' \<and>
   (parseCsv ''transect_id,dam\<newline>abc,x'' ! 0) ''dam'' = Some Undefined"
proof -
  let ?csv = "''transect_id,dam\<newline>abc,x''"
  have h0: "(0::nat) < length (dataLines ?csv)"
    by (simp add: sample_bad_csv)
  have h1: "rawRow (csvHeaders ?csv) (dataLines ?csv ! 0) ''transect_id'' = Some ''abc''"
    by (simp add: sample_bad_csv sample_bad_raw)
  have h2: "rawRow (csvHeaders ?csv) (dataLines ?csv ! 0) ''dam'' = Some ''x''"
    by (simp add: sample_bad_csv sample_bad_raw)
  from parseCsv_non_numeric_fields [of ?csv, rule_format, OF h0, of "''abc''"]
    parseCsv_non_numeric_fields [of ?csv, rule_format, OF h0, of "''x''"]
    h0 h1 h2 sample_bad_text sample_dam_text
  show ?thesis by blast
qed

section \<open>The transect-elevations endpoint\<close>

lemma sample_id_csv:
  "dataLines ''transect_id\<newline>1'' = [''1'']" "csvHeaders ''transect_id\<newline>1'' = [''transect_id'']"
  by (simp_all add: dataLines_eq csvHeaders_def headerAndRest_def nonBlank_def trim_def
      isWhiteSpace_def)

lemma sample_id_rows: "parseCsv ''transect_id\<newline>1'' = [rowOf [''transect_id''] ''1'']"
  by (simp add: parseCsv_rows sample_id_csv)

lemma sample_id_value: "getProperty (rowOf [''transect_id''] ''1'') ''transect_id'' = Number (Num 1)"
  by (simp add: getProperty_def rowOf_fields(1) rawRow_def setProperty_def propertyText_def
      trim_def isWhiteSpace_def parseInt_def trimStart_def isDigit_def digitsValue_def
      digitValue_def)

lemma parseInt_samples: "parseInt [] = NaN" "parseInt ''2'' = Num 2"
  by (simp_all add: parseInt_def trimStart_def isWhiteSpace_def isDigit_def digitsValue_def
      digitValue_def)

text \<open>
  C7, as stated, fails for the empty query value: it is strictly equal to no row's
  transect_id, yet the endpoint treats it as no filter and returns every row.
\<close>

theorem GET_empty_id_counterexample:
  "length (parseCsv ''transect_id\<newline>1'') = 1 \<and>
   \<not> js_strict_eq (getProperty (parseCsv ''transect_id\<newline>1'' ! 0) ''transect_id'')
        (Number (parseInt [])) \<and>
   GET (Inr ''transect_id\<newline>1'') (Some []) = DataResponse (parseCsv ''transect_id\<newline>1'') \<and>
   GET (Inr ''transect_id\<newline>1'') (Some []) \<noteq> DataResponse []"
  by (simp add: GET_def Let_def sample_id_rows sample_id_value parseInt_samples js_seq_def)

text \<open>
  C7, amended.  When the file was read, a request whose transect_id query value is not
  empty and whose parsed value is strictly equal to no row's transect_id gets a
  successful response with the empty array as data.  An empty query value is treated
  as no filter: like a request without the parameter, it gets every row.  Once the
  file was read no request gets an error response.
\<close>

theorem GET_unmatched_id_empty_data:
  "(s \<noteq> [] \<and>
    (\<forall>d \<in> set (parseCsv content).
       \<not> js_strict_eq (getProperty d ''transect_id'') (Number (parseInt s)))
    \<longrightarrow> GET (Inr content) (Some s) = DataResponse []) \<and>
   GET (Inr content) (Some []) = DataResponse (parseCsv content) \<and>
   GET (Inr content) None = DataResponse (parseCsv content) \<and>
   (\<exists>rows. GET (Inr content) idParam = DataResponse rows)"
  by (auto simp: GET_def Let_def split: option.splits)

theorem GET_unmatched_id_empty_data_witness:
  "''2'' \<noteq> [] \<and>
   length (parseCsv ''transect_id\<newline>1'') = 1 \<and>
   \<not> js_strict_eq (getProperty (parseCsv ''transect_id\<newline>1'' ! 0) ''transect_id'')
        (Number (parseInt ''2'')) \<and>
   GET (Inr ''transect_id\<newline>1'') (Some ''2'') = DataResponse []"
proof -
  have h: "''2'' \<noteq> [] \<and>
    (\<forall>d \<in> set (parseCsv ''transect_id\<newline>1'').
       \<not> js_strict_eq (getProperty d ''transect_id'') (Number (parseInt ''2'')))"
    by (simp add: sample_id_rows sample_id_value parseInt_samples js_seq_def)
  have g: "GET (Inr ''transect_id\<newline>1'') (Some ''2'') = DataResponse []"
    using GET_unmatched_id_empty_data [of "''2''" "''transect_id\<newline>1''"] h by blast
  show ?thesis
    using g by (simp add: sample_id_rows sample_id_value parseInt_samples js_seq_def)
qed

end
